theory Spec2Isabelle
  imports Main
begin

section \<open>The go/types differential oracle of go-fuzz (examples/gotypes/main.go)\<close>

text \<open>
  The oracle \<open>Fuzz\<close> takes a candidate Go source text, runs the go/types front end and the
  gccgo compiler on it, and decides from their error results whether the input is
  uninteresting (\<open>return 0\<close>), a pass (\<open>return 1\<close>), or a finding (\<open>panic\<close>).
  Go's \<open>[]byte\<close> and \<open>string\<close> are both sequences of bytes; both are modelled as
  \<open>string\<close>, whose characters are 8-bit.
\<close>

type_synonym bytes = string

subsection \<open>Substring search: \<open>strings.HasPrefix\<close>, \<open>strings.Contains\<close>, \<open>bytes.Contains\<close>\<close>

fun HasPrefix :: "bytes \<Rightarrow> bytes \<Rightarrow> bool" where
  "HasPrefix s [] = True"
| "HasPrefix [] (p # ps) = False"
| "HasPrefix (c # cs) (p # ps) = (c = p \<and> HasPrefix cs ps)"

fun Contains :: "bytes \<Rightarrow> bytes \<Rightarrow> bool" where
  "Contains [] substr = (substr = [])"
| "Contains (c # cs) substr = (HasPrefix (c # cs) substr \<or> Contains cs substr)"

subsection \<open>Regular expressions: package \<open>regexp\<close>\<close>

text \<open>
  The patterns of the source use literals, character classes, the dot, concatenation,
  alternation and the repetitions \<open>*\<close>, \<open>+\<close>, \<open>?\<close> and \<open>{3,}\<close>. All their literals and
  classes are ASCII, so a pattern position consumes one byte. The dot of Go's syntax
  matches any character but the newline; in the source it occurs only as \<open>.*\<close>, which
  matches exactly the byte sequences without a newline byte (no byte of a multi-byte
  UTF-8 sequence is a newline, and an invalid byte counts as one character).
  \<open>Fail\<close> has no concrete syntax: it arises in derivatives only.
\<close>

datatype regexp =
    Fail
  | Empty
  | Lit char
  | Class "char list"
  | Dot
  | Cat regexp regexp
  | Or regexp regexp
  | Star regexp

definition Plus :: "regexp \<Rightarrow> regexp" where
  "Plus r = Cat r (Star r)"

definition Opt :: "regexp \<Rightarrow> regexp" where
  "Opt r = Or r Empty"

definition AtLeast3 :: "regexp \<Rightarrow> regexp" where
  "AtLeast3 r = Cat r (Cat r (Cat r (Star r)))"

fun Str :: "bytes \<Rightarrow> regexp" where
  "Str [] = Empty"
| "Str (c # cs) = Cat (Lit c) (Str cs)"

fun nullable :: "regexp \<Rightarrow> bool" where
  "nullable Fail = False"
| "nullable Empty = True"
| "nullable (Lit c) = False"
| "nullable (Class cs) = False"
| "nullable Dot = False"
| "nullable (Cat r s) = (nullable r \<and> nullable s)"
| "nullable (Or r s) = (nullable r \<or> nullable s)"
| "nullable (Star r) = True"

fun deriv :: "char \<Rightarrow> regexp \<Rightarrow> regexp" where
  "deriv a Fail = Fail"
| "deriv a Empty = Fail"
| "deriv a (Lit c) = (if a = c then Empty else Fail)"
| "deriv a (Class cs) = (if a \<in> set cs then Empty else Fail)"
| "deriv a Dot = (if a = CHR ''\<newline>'' then Fail else Empty)"
| "deriv a (Cat r s) =
     (if nullable r then Or (Cat (deriv a r) s) (deriv a s) else Cat (deriv a r) s)"
| "deriv a (Or r s) = Or (deriv a r) (deriv a s)"
| "deriv a (Star r) = Cat (deriv a r) (Star r)"

text \<open>\<open>MatchHere r s\<close>: some prefix of \<open>s\<close> matches \<open>r\<close>.\<close>

fun MatchHere :: "regexp \<Rightarrow> bytes \<Rightarrow> bool" where
  "MatchHere r [] = nullable r"
| "MatchHere r (c # cs) = (nullable r \<or> MatchHere (deriv c r) cs)"

text \<open>
  \<open>Regexp.Match\<close> and \<open>Regexp.MatchString\<close> report whether the text contains any match
  of the pattern: the patterns are not anchored.
\<close>

fun Match :: "regexp \<Rightarrow> bytes \<Rightarrow> bool" where
  "Match r [] = nullable r"
| "Match r (c # cs) = (MatchHere r (c # cs) \<or> Match r cs)"

text \<open>
  What a pattern denotes, to state that the matcher is right: the set of byte sequences
  that match it as a whole.
\<close>

inductive_set star :: "bytes set \<Rightarrow> bytes set" for A :: "bytes set" where
  star_empty: "[] \<in> star A"
| star_step: "u \<in> A \<Longrightarrow> v \<in> star A \<Longrightarrow> u @ v \<in> star A"

fun lang :: "regexp \<Rightarrow> bytes set" where
  "lang Fail = {}"
| "lang Empty = {[]}"
| "lang (Lit c) = {[c]}"
| "lang (Class cs) = {[c] | c. c \<in> set cs}"
| "lang Dot = {[c] | c. c \<noteq> CHR ''\<newline>''}"
| "lang (Cat r s) = {u @ v | u v. u \<in> lang r \<and> v \<in> lang s}"
| "lang (Or r s) = lang r \<union> lang s"
| "lang (Star r) = star (lang r)"

subsection \<open>The pattern library (lines 21-36)\<close>

definition digit :: regexp where
  "digit = Class ''0123456789''"

definition space_class :: regexp where
  \<comment> \<open>\<open>[ \t\n\r\f\v]\<close>\<close>
  "space_class = Class [CHR '' '', CHR 0x09, CHR 0x0A, CHR 0x0D, CHR 0x0C, CHR 0x0B]"

definition bigNum :: regexp where
  \<comment> \<open>\<open>(\.[0-9]*)|([0-9]+)[eE]\-?\+?[0-9]{3,}\<close>: alternation binds weakest\<close>
  "bigNum =
     Or (Cat (Lit CHR ''.'') (Star digit))
        (Cat (Plus digit)
          (Cat (Class ''eE'')
            (Cat (Opt (Lit CHR ''-'')) (Cat (Opt (Lit CHR ''+'')) (AtLeast3 digit)))))"

definition formatBug1 :: regexp where
  \<comment> \<open>\<open>\*/[ \t\n\r\f\v]*;\<close>\<close>
  "formatBug1 = Cat (Str ''*/'') (Cat (Star space_class) (Lit CHR '';''))"

definition formatBug2 :: regexp where
  \<comment> \<open>\<open>;[ \t\n\r\f\v]*/\*\<close>\<close>
  "formatBug2 = Cat (Lit CHR '';'') (Cat (Star space_class) (Str ''/*''))"

definition issue11528 :: regexp where
  \<comment> \<open>\<open>/\*(.*\n)+.*\*/\<close>\<close>
  "issue11528 =
     Cat (Str ''/*'')
       (Cat (Plus (Cat (Star Dot) (Lit CHR ''\<newline>''))) (Cat (Star Dot) (Str ''*/'')))"

definition issue11533 :: regexp where
  \<comment> \<open>\<open>[ \r\t\n=\+\-\*\^\/\(,]0[0-9]+[ieE]\<close>\<close>
  "issue11533 =
     Cat (Class ([CHR '' '', CHR 0x0D, CHR 0x09, CHR 0x0A] @ ''=+-*^/(,''))
       (Cat (Lit CHR ''0'') (Cat (Plus digit) (Class ''ieE'')))"

definition issue11531 :: regexp where
  \<comment> \<open>\<open>,[ \t\r\n]*,\<close>\<close>
  "issue11531 =
     Cat (Lit CHR '','')
       (Cat (Star (Class [CHR '' '', CHR 0x09, CHR 0x0D, CHR 0x0A])) (Lit CHR '',''))"

definition fpRounding :: regexp where
  \<comment> \<open>\<open> \(untyped float constant .*\) truncated to \<close>\<close>
  "fpRounding =
     Cat (Str '' (untyped float constant '') (Cat (Star Dot) (Str '') truncated to ''))"

definition gcCrash :: regexp where
  \<comment> \<open>\<open>\n/tmp/fuzz\.gc[0-9]+:[0-9]+: internal compiler error: \<close>\<close>
  "gcCrash =
     Cat (Str ''\<newline>/tmp/fuzz.gc'')
       (Cat (Plus digit) (Cat (Lit CHR '':'')
         (Cat (Plus digit) (Str '': internal compiler error: ''))))"

definition gccgoCrash :: regexp where
  \<comment> \<open>\<open>\ngo1: internal compiler error:\<close>\<close>
  "gccgoCrash = Str ''\<newline>go1: internal compiler error:''"

definition asanCrash :: regexp where
  \<comment> \<open>\<open>\n==[0-9]+==ERROR: AddressSanitizer: \<close>\<close>
  "asanCrash =
     Cat (Str ''\<newline>=='') (Cat (Plus digit) (Str ''==ERROR: AddressSanitizer: ''))"

subsection \<open>Results, effects and the external collaborators\<close>

text \<open>
  A Go function either returns or panics. An \<open>error\<close> value is \<open>nil\<close> or carries a
  message: \<open>error option\<close>, with the text of \<open>Error()\<close>. The effects of \<open>Fuzz\<close> that
  matter are the calls of the adapters and of the formatter, with the bytes passed,
  and the lines printed with \<open>fmt.Printf\<close>; \<open>Fuzz\<close> returns them as a trace, in order.
\<close>

datatype 'a exit = Return 'a | Panic string

type_synonym error = string

datatype event =
    Call_gotypes bytes
  | Call_gccgo bytes
  | Call_format_Source bytes
  | Printf string

text \<open>
  The libraries and the compiler process are outside the repository; they are parameters:
  \<open>parser.ParseFile\<close>, \<open>types.Config.Check\<close>, the results of \<open>Package.WriteTo\<close> for the
  packages of the SSA program, the process \<open>go1\<close> (its combined output and the error of
  \<open>CombinedOutput\<close>), \<open>format.Source\<close>, and the quoting of the verb \<open>%q\<close>. Each call is
  taken to come back: a process that hangs is outside the model. The function \<open>gc\<close> of
  lines 340-357 is never called and is not modelled.
\<close>

record 'ast env =
  parser_ParseFile :: "bytes \<Rightarrow> error + 'ast"
  types_Check :: "'ast \<Rightarrow> error option"
  ssa_WriteTo :: "'ast \<Rightarrow> error option list"
  exec_go1 :: "bytes \<Rightarrow> bytes \<times> error option"
  format_Source :: "bytes \<Rightarrow> error + bytes"
  strconv_Quote :: "bytes \<Rightarrow> string"

text \<open>\<open>e.Error()\<close>; every use in the source is guarded by \<open>e != nil\<close>.\<close>

definition Error :: "error option \<Rightarrow> string" where
  "Error e = the e"

text \<open>The verb \<open>%v\<close> applied to an error.\<close>

definition fmt_v :: "error option \<Rightarrow> string" where
  "fmt_v e = (case e of None \<Rightarrow> ''<nil>'' | Some m \<Rightarrow> m)"

subsection \<open>The adapters \<open>gotypes\<close> (lines 312-338) and \<open>gccgo\<close> (lines 359-368)\<close>

text \<open>The loop of lines 331-336: the first failing \<open>WriteTo\<close> panics with its error.\<close>

fun write_packages :: "error option list \<Rightarrow> unit exit" where
  "write_packages [] = Return ()"
| "write_packages (r # rs) =
     (case r of Some e \<Rightarrow> Panic e | None \<Rightarrow> write_packages rs)"

definition gotypes :: "'ast env \<Rightarrow> bytes \<Rightarrow> error option exit" where
  "gotypes env data =
     (case parser_ParseFile env data of
        Inl e \<Rightarrow> Return (Some e)
      | Inr f \<Rightarrow>
          (case types_Check env f of
             Some e \<Rightarrow> Return (Some e)
           | None \<Rightarrow>
               (case write_packages (ssa_WriteTo env f) of
                  Panic p \<Rightarrow> Panic p
                | Return u \<Rightarrow> Return None)))"

definition gccgo :: "'ast env \<Rightarrow> bytes \<Rightarrow> error option" where
  "gccgo env data =
     (case exec_go1 env data of
        (out, Some e) \<Rightarrow> Some (out @ ''\<newline>'' @ e)
      | (out, None) \<Rightarrow> None)"

subsection \<open>The body of \<open>Fuzz\<close>, in the order of the source\<close>

text \<open>
  Each block of the source is a function that gives \<open>Some\<close> result when one of its
  \<open>return\<close> or \<open>panic\<close> statements is reached, with the lines printed before it, and
  \<open>None\<close> when control falls through to the next block.
\<close>

type_synonym step = "(int exit \<times> event list) option"

abbreviation returns :: "int \<Rightarrow> step" where
  "returns n \<equiv> Some (Return n, [])"

text \<open>Lines 51-77: the divergences between go/types and gc.\<close>

definition gc_divergences :: "error option \<Rightarrow> error option \<Rightarrow> step" where
  "gc_divergences goErr gcErr =
     (if goErr = None \<and> gcErr \<noteq> None \<and> Contains (Error gcErr) ''line number out of range''
      then returns 0
      else if goErr = None \<and> gcErr \<noteq> None \<and> Contains (Error gcErr) ''stupid shift:''
      then returns 0
      else if gcErr = None \<and> goErr \<noteq> None \<and> Contains (Error goErr) ''untyped float constant''
      then returns 0
      else if goErr = None \<and> gcErr \<noteq> None \<and> Contains (Error gcErr) ''overflow in int -> string''
      then returns 0
      else if gcErr = None \<and> goErr \<noteq> None \<and> Contains (Error goErr) ''illegal character U+''
      then returns 0
      else if goErr = None \<and> gcErr \<noteq> None \<and> Contains (Error gcErr) ''larger than address space''
      then returns 0
      else if goErr = None \<and> gcErr \<noteq> None \<and> Contains (Error gcErr) ''non-canonical import path''
      then returns 0
      else None)"

text \<open>Lines 79-132: gccgo accepts what go/types rejects.\<close>

definition gccgo_accepts :: "bytes \<Rightarrow> error option \<Rightarrow> error option \<Rightarrow> step" where
  "gccgo_accepts data goErr gccgoErr =
     (if gccgoErr = None \<and> goErr \<noteq> None then
        (if Contains (Error goErr) ''invalid operation: stupid shift count'' then returns 0
         else if (Contains data ''//line'' \<or> Contains data ''/*'') \<and>
                 (Contains (Error goErr) ''illegal UTF-8 encoding'' \<or>
                  Contains (Error goErr) ''illegal character NUL'') then returns 0
         else if Contains (Error goErr) ''invalid operation: operator ^ not defined for''
         then returns 0
         else if Match fpRounding (Error goErr) then returns 0
         else if Contains data ''_'' \<and>
                 (Contains (Error goErr) '': undeclared name: '' \<or>
                  Contains (Error goErr) ''invalid array length'') then returns 0
         else if Contains (Error goErr) ''not enough arguments for complex'' then returns 0
         else if Contains (Error goErr) ''operator | not defined for'' then returns 0
         else if Contains (Error goErr) ''nil (untyped nil value) is not a type'' then returns 0
         else if Contains (Error goErr) ''(built-in) must be called'' then returns 0
         else if Contains (Error goErr) ''redeclared in this block'' then returns 0
         else if Contains (Error goErr) ''illegal byte order mark'' then returns 0
         else if Contains (Error goErr) ''unknown escape sequence'' then returns 0
         else None)
      else None)"

text \<open>Lines 134-163: go/types accepts what gccgo rejects.\<close>

definition gccgo_rejects :: "bytes \<Rightarrow> error option \<Rightarrow> error option \<Rightarrow> step" where
  "gccgo_rejects data goErr gccgoErr =
     (if goErr = None \<and> gccgoErr \<noteq> None then
        (if Contains (Error gccgoErr) ''error: string index out of bounds'' then returns 0
         else if Contains (Error gccgoErr) ''error: integer constant overflow'' then returns 0
         else if Match issue11533 data then returns 0
         else if Contains data ''0i'' \<and>
                 (Contains (Error gccgoErr) ''incompatible types in binary expression'' \<or>
                  Contains (Error gccgoErr) ''initialization expression has wrong type'')
         then returns 0
         else if Contains (Error gccgoErr) ''invalid character 0x37f in input file''
         then returns 0
         else if Contains (Error gccgoErr) ''error: incompatible types in binary expression''
         then returns 0
         else None)
      else None)"

text \<open>Lines 165-169: the workaround for a broken gccgo installation.\<close>

definition import_file :: "error option \<Rightarrow> error option \<Rightarrow> step" where
  "import_file goErr gccgoErr =
     (if goErr = None \<and> gccgoErr \<noteq> None \<and> Contains (Error gccgoErr) '': error: import file ''
      then returns 0 else None)"

text \<open>Lines 171-174: a comment over several lines, in either direction.\<close>

definition multiline_comment :: "bytes \<Rightarrow> error option \<Rightarrow> error option \<Rightarrow> step" where
  "multiline_comment data goErr gccgoErr =
     (if (goErr = None \<and> gccgoErr \<noteq> None \<or> goErr \<noteq> None \<and> gccgoErr = None) \<and>
         Match issue11528 data
      then returns 0 else None)"

text \<open>Lines 177-192: an internal compiler error of gc.\<close>

definition gc_crash :: "error option \<Rightarrow> step" where
  "gc_crash gcErr =
     (if gcErr \<noteq> None \<and> Match gcCrash (Error gcErr) then
        (if Contains (Error gcErr) ''internal compiler error: out of fixed registers''
         then returns 0
         else if Contains (Error gcErr) ''internal compiler error: naddr: bad HMUL''
         then returns 0
         else if Contains (Error gcErr) ''internal compiler error: treecopy Name''
         then returns 0
         else Some (Panic ''gc compiler crashed'',
                    [Printf (''gc result: '' @ fmt_v gcErr @ ''\<newline>'')]))
      else None)"

text \<open>
  Lines 194-271: an internal compiler error of gccgo. The quotation marks around
  \<open>print\<close> in the first string are U+2018 and U+2019, three bytes each in UTF-8.
\<close>

definition gccgo_crash :: "error option \<Rightarrow> step" where
  "gccgo_crash gccgoErr =
     (if gccgoErr \<noteq> None \<and> Match gccgoCrash (Error gccgoErr) then
        (if Contains (Error gccgoErr)
              (''warning: no arguments for builtin function '' @
               [CHR 0xE2, CHR 0x80, CHR 0x98] @ ''print'' @ [CHR 0xE2, CHR 0x80, CHR 0x99])
         then returns 0
         else if Contains (Error gccgoErr) ''error: constant refers to itself''
         then returns 0
         else if Contains (Error gccgoErr)
              ''go1: internal compiler error: in set_type, at go/gofrontend/expressions.cc''
         then returns 0
         else if Contains (Error gccgoErr)
              ''go1: internal compiler error: in global_variable_set_init, at go/go-gcc.cc''
         then returns 0
         else if Contains (Error gccgoErr)
              ''go1: internal compiler error: in wide_int_to_tree, at tree.c''
         then returns 0
         else if Contains (Error gccgoErr)
              ''go1: internal compiler error: in record_var_depends_on, at go/gofrontend/gogo.h''
         then returns 0
         else if Contains (Error gccgoErr)
              ''go1: internal compiler error: in Builtin_call_expression, at go/gofrontend/expressions.cc''
         then returns 0
         else if Contains (Error gccgoErr)
              ''go1: internal compiler error: in check_bounds, at go/gofrontend/expressions.cc''
         then returns 0
         else if Contains (Error gccgoErr)
              ''go1: internal compiler error: in do_determine_type, at go/gofrontend/expressions.h''
         then returns 0
         else if Contains (Error gccgoErr)
              ''go1: internal compiler error: in backend_numeric_constant_expression, at go/gofrontend/expressions.cc''
         then returns 0
         else if Contains (Error gccgoErr)
              ''go1: internal compiler error: in declare_function, at go/gofrontend/gogo.cc''
         then returns 0
         else if Contains (Error gccgoErr) ''gcc/go/gofrontend/expressions.cc:5756''
         then returns 0
         else if Contains (Error gccgoErr) ''Send_statement::do_flatten''
         then returns 0
         else if Contains (Error gccgoErr)
              ''internal compiler error: in do_get_backend, at go/gofrontend/expressions.cc''
         then returns 0
         else if Contains (Error gccgoErr)
              ''go1: internal compiler error: in type_size, at go/go-gcc.cc''
         then returns 0
         else if Contains (Error gccgoErr)
              ''go1: internal compiler error: in create_tmp_var, at gimple-expr.c''
         then returns 0
         else if Contains (Error gccgoErr)
              ''go1: internal compiler error: in start_function, at go/gofrontend/gogo.cc''
         then returns 0
         else if Contains (Error gccgoErr)
              ''go1: internal compiler error: in methods, at go/gofrontend/types.cc''
         then returns 0
         else Some (Panic ''gccgo compiler crashed'',
                    [Printf (''gccgo result: '' @ fmt_v gccgoErr @ ''\<newline>'')]))
      else None)"

text \<open>Lines 273-280: a report of the address sanitizer in gccgo.\<close>

definition asan_crash :: "error option \<Rightarrow> step" where
  "asan_crash gccgoErr =
     (if gccgoErr \<noteq> None \<and> Match asanCrash (Error gccgoErr) then
        (if Contains (Error gccgoErr)
              '' in Lex::skip_cpp_comment() ../../gcc/go/gofrontend/lex.cc''
         then returns 0
         else Some (Panic ''gccgo compiler crashed'',
                    [Printf (''gccgo result: '' @ fmt_v gccgoErr @ ''\<newline>'')]))
      else None)"

text \<open>Lines 282-287: the implementations disagree.\<close>

definition disagreement :: "error option \<Rightarrow> error option \<Rightarrow> error option \<Rightarrow> step" where
  "disagreement goErr gcErr gccgoErr =
     (if (goErr = None) \<noteq> (gcErr = None) \<or> (goErr = None) \<noteq> (gccgoErr = None) then
        Some (Panic ''gc, gccgo and go/types disagree'',
              [Printf (''go/types result: '' @ fmt_v goErr @ ''\<newline>''),
               Printf (''gc result: '' @ fmt_v gcErr @ ''\<newline>''),
               Printf (''gccgo result: '' @ fmt_v gccgoErr @ ''\<newline>'')])
      else None)"

text \<open>Line 296: \<open>bytes.Replace(data, []byte{'\r'}, []byte{' '}, -1)\<close>.\<close>

definition replace_cr :: "bytes \<Rightarrow> bytes" where
  "replace_cr data = map (\<lambda>c. if c = CHR 0x0D then CHR '' '' else c) data"

text \<open>
  Lines 288-310: all agree. The formatted text is checked again only under the constant
  \<open>false\<close> (lines 301-308).
\<close>

definition reformat :: "'ast env \<Rightarrow> bytes \<Rightarrow> error option \<Rightarrow> int exit \<times> event list" where
  "reformat env data goErr =
     (if goErr \<noteq> None then (Return 0, [])
      else if Match formatBug1 data \<or> Match formatBug2 data then (Return 1, [])
      else
        (let data' = replace_cr data in
         case format_Source env data' of
           Inl err \<Rightarrow> (Panic err, [Call_format_Source data'])
         | Inr data1 \<Rightarrow>
             (if False then
                (case gotypes env data1 of
                   Panic p \<Rightarrow> (Panic p, [Call_format_Source data', Call_gotypes data1])
                 | Return err \<Rightarrow>
                     (if err \<noteq> None then
                        (Panic ''program become invalid after gofmt'',
                         [Call_format_Source data', Call_gotypes data1,
                          Printf (''new: '' @ strconv_Quote env data1 @ ''\<newline>''),
                          Printf (''err: '' @ fmt_v err @ ''\<newline>'')])
                      else (Return 1, [Call_format_Source data', Call_gotypes data1])))
              else (Return 1, [Call_format_Source data']))))"

text \<open>Lines 51-310, from the three error values on.\<close>

definition after_adapters ::
  "'ast env \<Rightarrow> bytes \<Rightarrow> error option \<Rightarrow> error option \<Rightarrow> error option \<Rightarrow> int exit \<times> event list"
where
  "after_adapters env data goErr gcErr gccgoErr =
     (case gc_divergences goErr gcErr of Some r \<Rightarrow> r | None \<Rightarrow>
     (case gccgo_accepts data goErr gccgoErr of Some r \<Rightarrow> r | None \<Rightarrow>
     (case gccgo_rejects data goErr gccgoErr of Some r \<Rightarrow> r | None \<Rightarrow>
     (case import_file goErr gccgoErr of Some r \<Rightarrow> r | None \<Rightarrow>
     (case multiline_comment data goErr gccgoErr of Some r \<Rightarrow> r | None \<Rightarrow>
     (case gc_crash gcErr of Some r \<Rightarrow> r | None \<Rightarrow>
     (case gccgo_crash gccgoErr of Some r \<Rightarrow> r | None \<Rightarrow>
     (case asan_crash gccgoErr of Some r \<Rightarrow> r | None \<Rightarrow>
     (case disagreement goErr gcErr gccgoErr of Some r \<Rightarrow> r | None \<Rightarrow>
      reformat env data goErr)))))))))"

text \<open>
  \<open>Fuzz\<close> (lines 38-310). The call of \<open>gc\<close> is commented out in the source and
  \<open>gcErr\<close> is bound to \<open>goErr\<close>. A panic inside \<open>gotypes\<close> ends \<open>Fuzz\<close>.
\<close>

definition Fuzz :: "'ast env \<Rightarrow> bytes \<Rightarrow> int exit \<times> event list" where
  "Fuzz env data =
     (if Match bigNum data then (Return 0, [])
      else if Match issue11531 data then (Return 0, [])
      else
        (case gotypes env data of
           Panic p \<Rightarrow> (Panic p, [Call_gotypes data])
         | Return goErr \<Rightarrow>
             (let gcErr = goErr;
                  gccgoErr = gccgo env data;
                  (r, out) = after_adapters env data goErr gcErr gccgoErr
              in (r, [Call_gotypes data, Call_gccgo data] @ out))))"

subsection \<open>The rules as tables\<close>

text \<open>
  The conditions of the source once more, as data: the pre-filters, the list of the
  known divergences of lines 51-174 and the lists of the crash signatures already filed.
  The lemmas below relate the blocks of \<open>Fuzz\<close> to them.
\<close>

definition prefiltered :: "bytes \<Rightarrow> bool" where
  "prefiltered data = (Match bigNum data \<or> Match issue11531 data)"

text \<open>
  The implementation with result \<open>x\<close> accepts, the one with result \<open>y\<close> rejects with a
  message that satisfies \<open>P\<close>.
\<close>

definition accepts_rejects :: "error option \<Rightarrow> error option \<Rightarrow> (string \<Rightarrow> bool) \<Rightarrow> bool" where
  "accepts_rejects x y P =
     (case x of
        Some m \<Rightarrow> False
      | None \<Rightarrow> (case y of None \<Rightarrow> False | Some m \<Rightarrow> P m))"

type_synonym rule = "bytes \<Rightarrow> error option \<Rightarrow> error option \<Rightarrow> error option \<Rightarrow> bool"

definition gc_rules :: "rule list" where
  "gc_rules =
    [\<lambda>data goErr gcErr gccgoErr. accepts_rejects goErr gcErr (\<lambda>m. Contains m ''line number out of range''),
     \<lambda>data goErr gcErr gccgoErr. accepts_rejects goErr gcErr (\<lambda>m. Contains m ''stupid shift:''),
     \<lambda>data goErr gcErr gccgoErr. accepts_rejects gcErr goErr (\<lambda>m. Contains m ''untyped float constant''),
     \<lambda>data goErr gcErr gccgoErr. accepts_rejects goErr gcErr (\<lambda>m. Contains m ''overflow in int -> string''),
     \<lambda>data goErr gcErr gccgoErr. accepts_rejects gcErr goErr (\<lambda>m. Contains m ''illegal character U+''),
     \<lambda>data goErr gcErr gccgoErr. accepts_rejects goErr gcErr (\<lambda>m. Contains m ''larger than address space''),
     \<lambda>data goErr gcErr gccgoErr. accepts_rejects goErr gcErr (\<lambda>m. Contains m ''non-canonical import path'')]"

definition gccgo_accepts_rules :: "rule list" where
  "gccgo_accepts_rules =
    [\<lambda>data goErr gcErr gccgoErr. accepts_rejects gccgoErr goErr
        (\<lambda>m. Contains m ''invalid operation: stupid shift count''),
     \<lambda>data goErr gcErr gccgoErr. accepts_rejects gccgoErr goErr
        (\<lambda>m. (Contains data ''//line'' \<or> Contains data ''/*'') \<and>
             (Contains m ''illegal UTF-8 encoding'' \<or> Contains m ''illegal character NUL'')),
     \<lambda>data goErr gcErr gccgoErr. accepts_rejects gccgoErr goErr
        (\<lambda>m. Contains m ''invalid operation: operator ^ not defined for''),
     \<lambda>data goErr gcErr gccgoErr. accepts_rejects gccgoErr goErr (\<lambda>m. Match fpRounding m),
     \<lambda>data goErr gcErr gccgoErr. accepts_rejects gccgoErr goErr
        (\<lambda>m. Contains data ''_'' \<and>
             (Contains m '': undeclared name: '' \<or> Contains m ''invalid array length'')),
     \<lambda>data goErr gcErr gccgoErr. accepts_rejects gccgoErr goErr
        (\<lambda>m. Contains m ''not enough arguments for complex''),
     \<lambda>data goErr gcErr gccgoErr. accepts_rejects gccgoErr goErr (\<lambda>m. Contains m ''operator | not defined for''),
     \<lambda>data goErr gcErr gccgoErr. accepts_rejects gccgoErr goErr
        (\<lambda>m. Contains m ''nil (untyped nil value) is not a type''),
     \<lambda>data goErr gcErr gccgoErr. accepts_rejects gccgoErr goErr (\<lambda>m. Contains m ''(built-in) must be called''),
     \<lambda>data goErr gcErr gccgoErr. accepts_rejects gccgoErr goErr (\<lambda>m. Contains m ''redeclared in this block''),
     \<lambda>data goErr gcErr gccgoErr. accepts_rejects gccgoErr goErr (\<lambda>m. Contains m ''illegal byte order mark''),
     \<lambda>data goErr gcErr gccgoErr. accepts_rejects gccgoErr goErr (\<lambda>m. Contains m ''unknown escape sequence'')]"

definition gccgo_rejects_rules :: "rule list" where
  "gccgo_rejects_rules =
    [\<lambda>data goErr gcErr gccgoErr. accepts_rejects goErr gccgoErr
        (\<lambda>m. Contains m ''error: string index out of bounds''),
     \<lambda>data goErr gcErr gccgoErr. accepts_rejects goErr gccgoErr
        (\<lambda>m. Contains m ''error: integer constant overflow''),
     \<lambda>data goErr gcErr gccgoErr. accepts_rejects goErr gccgoErr (\<lambda>m. Match issue11533 data),
     \<lambda>data goErr gcErr gccgoErr. accepts_rejects goErr gccgoErr
        (\<lambda>m. Contains data ''0i'' \<and>
             (Contains m ''incompatible types in binary expression'' \<or>
              Contains m ''initialization expression has wrong type'')),
     \<lambda>data goErr gcErr gccgoErr. accepts_rejects goErr gccgoErr
        (\<lambda>m. Contains m ''invalid character 0x37f in input file''),
     \<lambda>data goErr gcErr gccgoErr. accepts_rejects goErr gccgoErr
        (\<lambda>m. Contains m ''error: incompatible types in binary expression'')]"

definition import_rules :: "rule list" where
  "import_rules =
    [\<lambda>data goErr gcErr gccgoErr. accepts_rejects goErr gccgoErr
        (\<lambda>m. Contains m '': error: import file '')]"

definition comment_rules :: "rule list" where
  "comment_rules =
    [\<lambda>data goErr gcErr gccgoErr. accepts_rejects goErr gccgoErr (\<lambda>m. Match issue11528 data),
     \<lambda>data goErr gcErr gccgoErr. accepts_rejects gccgoErr goErr (\<lambda>m. Match issue11528 data)]"

definition step2_rules :: "rule list" where
  "step2_rules =
     gc_rules @ gccgo_accepts_rules @ gccgo_rejects_rules @ import_rules @ comment_rules"

definition matches :: "rule list \<Rightarrow> bytes \<Rightarrow> error option \<Rightarrow> error option \<Rightarrow> error option \<Rightarrow> bool" where
  "matches rules data goErr gcErr gccgoErr = list_ex (\<lambda>r. r data goErr gcErr gccgoErr) rules"

text \<open>A verdict is a crash of the class \<open>pat\<close>; it carries one of the signatures \<open>sigs\<close>.\<close>

definition crashed :: "regexp \<Rightarrow> error option \<Rightarrow> bool" where
  "crashed pat e = (case e of None \<Rightarrow> False | Some m \<Rightarrow> Match pat m)"

definition curated :: "string list \<Rightarrow> error option \<Rightarrow> bool" where
  "curated sigs e = (case e of None \<Rightarrow> False | Some m \<Rightarrow> list_ex (Contains m) sigs)"

definition gc_signatures :: "string list" where
  "gc_signatures =
    [''internal compiler error: out of fixed registers'',
     ''internal compiler error: naddr: bad HMUL'',
     ''internal compiler error: treecopy Name'']"

definition gccgo_signatures :: "string list" where
  "gccgo_signatures =
    [''warning: no arguments for builtin function '' @
       [CHR 0xE2, CHR 0x80, CHR 0x98] @ ''print'' @ [CHR 0xE2, CHR 0x80, CHR 0x99],
     ''error: constant refers to itself'',
     ''go1: internal compiler error: in set_type, at go/gofrontend/expressions.cc'',
     ''go1: internal compiler error: in global_variable_set_init, at go/go-gcc.cc'',
     ''go1: internal compiler error: in wide_int_to_tree, at tree.c'',
     ''go1: internal compiler error: in record_var_depends_on, at go/gofrontend/gogo.h'',
     ''go1: internal compiler error: in Builtin_call_expression, at go/gofrontend/expressions.cc'',
     ''go1: internal compiler error: in check_bounds, at go/gofrontend/expressions.cc'',
     ''go1: internal compiler error: in do_determine_type, at go/gofrontend/expressions.h'',
     ''go1: internal compiler error: in backend_numeric_constant_expression, at go/gofrontend/expressions.cc'',
     ''go1: internal compiler error: in declare_function, at go/gofrontend/gogo.cc'',
     ''gcc/go/gofrontend/expressions.cc:5756'',
     ''Send_statement::do_flatten'',
     ''internal compiler error: in do_get_backend, at go/gofrontend/expressions.cc'',
     ''go1: internal compiler error: in type_size, at go/go-gcc.cc'',
     ''go1: internal compiler error: in create_tmp_var, at gimple-expr.c'',
     ''go1: internal compiler error: in start_function, at go/gofrontend/gogo.cc'',
     ''go1: internal compiler error: in methods, at go/gofrontend/types.cc'']"

definition asan_signatures :: "string list" where
  "asan_signatures = ['' in Lex::skip_cpp_comment() ../../gcc/go/gofrontend/lex.cc'']"

subsection \<open>The oracle with two arms\<close>

text \<open>
  The comparison of the reference front end with gccgo alone: \<open>Fuzz\<close> without the rules
  of lines 51-77, which are conditioned on a difference between \<open>goErr\<close> and \<open>gcErr\<close>,
  and with the check of line 282 reduced to its second half. Everything else is as in
  \<open>Fuzz\<close>; in particular the pattern \<open>gcCrash\<close> is still tried, on the error of the
  reference front end, and the line \<open>gc result\<close> still prints that error.
\<close>

definition disagreement_two_way :: "error option \<Rightarrow> error option \<Rightarrow> step" where
  "disagreement_two_way goErr gccgoErr =
     (if (goErr = None) \<noteq> (gccgoErr = None) then
        Some (Panic ''gc, gccgo and go/types disagree'',
              [Printf (''go/types result: '' @ fmt_v goErr @ ''\<newline>''),
               Printf (''gc result: '' @ fmt_v goErr @ ''\<newline>''),
               Printf (''gccgo result: '' @ fmt_v gccgoErr @ ''\<newline>'')])
      else None)"

definition Fuzz_two_way :: "'ast env \<Rightarrow> bytes \<Rightarrow> int exit \<times> event list" where
  "Fuzz_two_way env data =
     (if Match bigNum data then (Return 0, [])
      else if Match issue11531 data then (Return 0, [])
      else
        (case gotypes env data of
           Panic p \<Rightarrow> (Panic p, [Call_gotypes data])
         | Return goErr \<Rightarrow>
             (let gccgoErr = gccgo env data;
                  (r, out) =
                    (case gccgo_accepts data goErr gccgoErr of Some r \<Rightarrow> r | None \<Rightarrow>
                    (case gccgo_rejects data goErr gccgoErr of Some r \<Rightarrow> r | None \<Rightarrow>
                    (case import_file goErr gccgoErr of Some r \<Rightarrow> r | None \<Rightarrow>
                    (case multiline_comment data goErr gccgoErr of Some r \<Rightarrow> r | None \<Rightarrow>
                    (case gc_crash goErr of Some r \<Rightarrow> r | None \<Rightarrow>
                    (case gccgo_crash gccgoErr of Some r \<Rightarrow> r | None \<Rightarrow>
                    (case asan_crash gccgoErr of Some r \<Rightarrow> r | None \<Rightarrow>
                    (case disagreement_two_way goErr gccgoErr of Some r \<Rightarrow> r | None \<Rightarrow>
                     reformat env data goErr))))))))
              in (r, [Call_gotypes data, Call_gccgo data] @ out))))"

subsection \<open>Fixed collaborators for concrete runs\<close>

text \<open>
  The collaborators answer the same on every input: the reference front end reports
  \<open>goErr\<close> from the parser (or accepts), \<open>go1\<close> ends with the output and error \<open>run\<close>,
  the formatter gives \<open>formatted\<close>. (The quoting is never reached; it is the identity here.)
\<close>

definition mock :: "error option \<Rightarrow> bytes \<times> error option \<Rightarrow> error + bytes \<Rightarrow> unit env" where
  "mock goErr run formatted =
     \<lparr>parser_ParseFile = (\<lambda>data. case goErr of Some e \<Rightarrow> Inl e | None \<Rightarrow> Inr ()),
      types_Check = (\<lambda>f. None),
      ssa_WriteTo = (\<lambda>f. []),
      exec_go1 = (\<lambda>data. run),
      format_Source = (\<lambda>data. formatted),
      strconv_Quote = (\<lambda>data. data)\<rparr>"

subsection \<open>The search functions find what they should\<close>

text \<open>
  \<open>Contains s t\<close> holds exactly when \<open>t\<close> occurs in \<open>s\<close>, and \<open>Match r s\<close> exactly when
  some part of \<open>s\<close> is in the language of \<open>r\<close>.
\<close>

lemma HasPrefix_iff: "HasPrefix s p \<longleftrightarrow> (\<exists>q. s = p @ q)"
  by (induction s p rule: HasPrefix.induct) auto

lemma Contains_iff: "Contains s t \<longleftrightarrow> (\<exists>p q. s = p @ t @ q)"
proof (induction s)
  case Nil
  then show ?case by simp
next
  case (Cons c cs)
  have "(\<exists>p q. c # cs = p @ t @ q) \<longleftrightarrow>
        (\<exists>q. c # cs = t @ q) \<or> (\<exists>p q. cs = p @ t @ q)"
  proof
    assume "\<exists>p q. c # cs = p @ t @ q"
    then obtain p q where e: "c # cs = p @ t @ q" by blast
    show "(\<exists>q. c # cs = t @ q) \<or> (\<exists>p q. cs = p @ t @ q)"
    proof (cases p)
      case Nil
      with e show ?thesis by auto
    next
      case (Cons a p')
      with e show ?thesis by auto
    qed
  next
    assume "(\<exists>q. c # cs = t @ q) \<or> (\<exists>p q. cs = p @ t @ q)"
    then show "\<exists>p q. c # cs = p @ t @ q"
    proof
      assume "\<exists>q. c # cs = t @ q"
      then obtain q where "c # cs = [] @ t @ q" by auto
      then show ?thesis by blast
    next
      assume "\<exists>p q. cs = p @ t @ q"
      then obtain p q where "c # cs = (c # p) @ t @ q" by auto
      then show ?thesis by blast
    qed
  qed
  with Cons show ?case by (simp add: HasPrefix_iff)
qed

lemma nullable_lang: "nullable r \<longleftrightarrow> [] \<in> lang r"
  by (induction r) (auto intro: star_empty)

lemma star_Cons:
  "c # w \<in> star A \<longleftrightarrow> (\<exists>u v. w = u @ v \<and> c # u \<in> A \<and> v \<in> star A)"
proof
  assume "c # w \<in> star A"
  then have "\<exists>u v. w = u @ v \<and> c # u \<in> A \<and> v \<in> star A"
  proof (induction "c # w" rule: star.induct)
    case (star_step u v)
    show ?case
    proof (cases u)
      case Nil
      with star_step show ?thesis by simp
    next
      case (Cons a u')
      with star_step have "w = u' @ v" and "c # u' \<in> A" and "v \<in> star A" by auto
      then show ?thesis by blast
    qed
  qed
  then show "\<exists>u v. w = u @ v \<and> c # u \<in> A \<and> v \<in> star A" .
next
  assume "\<exists>u v. w = u @ v \<and> c # u \<in> A \<and> v \<in> star A"
  then obtain u v where "w = u @ v" and "c # u \<in> A" and "v \<in> star A" by blast
  then have "(c # u) @ v \<in> star A" by (intro star_step)
  with \<open>w = u @ v\<close> show "c # w \<in> star A" by simp
qed

lemma lang_Cat_Cons:
  "c # w \<in> lang (Cat r s) \<longleftrightarrow>
     (\<exists>u v. w = u @ v \<and> c # u \<in> lang r \<and> v \<in> lang s) \<or> ([] \<in> lang r \<and> c # w \<in> lang s)"
  by (auto simp add: Cons_eq_append_conv)

lemma deriv_lang: "w \<in> lang (deriv c r) \<longleftrightarrow> c # w \<in> lang r"
proof (induction r arbitrary: w)
  case (Cat r s)
  have "w \<in> lang (deriv c (Cat r s)) \<longleftrightarrow>
     (\<exists>u v. w = u @ v \<and> c # u \<in> lang r \<and> v \<in> lang s) \<or> ([] \<in> lang r \<and> c # w \<in> lang s)"
    using Cat by (auto simp add: nullable_lang)
  then show ?case by (simp only: lang_Cat_Cons)
next
  case (Star r)
  have "w \<in> lang (deriv c (Star r)) \<longleftrightarrow>
     (\<exists>u v. w = u @ v \<and> c # u \<in> lang r \<and> v \<in> star (lang r))"
    using Star by auto
  then show ?case by (simp add: star_Cons)
qed auto

lemma MatchHere_lang: "MatchHere r s \<longleftrightarrow> (\<exists>m q. s = m @ q \<and> m \<in> lang r)"
proof (induction s arbitrary: r)
  case Nil
  then show ?case by (simp add: nullable_lang)
next
  case (Cons c cs)
  have "(\<exists>m q. c # cs = m @ q \<and> m \<in> lang r) \<longleftrightarrow>
        [] \<in> lang r \<or> (\<exists>m q. cs = m @ q \<and> c # m \<in> lang r)"
    by (auto simp add: Cons_eq_append_conv)
  with Cons show ?case by (simp add: nullable_lang deriv_lang)
qed

lemma Match_lang: "Match r s \<longleftrightarrow> (\<exists>p m q. s = p @ m @ q \<and> m \<in> lang r)"
proof (induction s)
  case Nil
  then show ?case by (simp add: nullable_lang)
next
  case (Cons c cs)
  have "(\<exists>p m q. c # cs = p @ m @ q \<and> m \<in> lang r) \<longleftrightarrow>
        (\<exists>m q. c # cs = m @ q \<and> m \<in> lang r) \<or> (\<exists>p m q. cs = p @ m @ q \<and> m \<in> lang r)"
    (is "?L \<longleftrightarrow> ?A \<or> ?B")
  proof
    assume ?L
    then obtain p m q where e: "c # cs = p @ m @ q" and m: "m \<in> lang r" by blast
    show "?A \<or> ?B"
    proof (cases p)
      case Nil
      with e m show ?thesis by auto
    next
      case (Cons a p')
      with e m show ?thesis by auto
    qed
  next
    assume "?A \<or> ?B"
    then show ?L
    proof
      assume ?A
      then obtain m q where "c # cs = [] @ m @ q" and "m \<in> lang r" by auto
      then show ?L by blast
    next
      assume ?B
      then obtain p m q where "c # cs = (c # p) @ m @ q" and "m \<in> lang r" by auto
      then show ?L by blast
    qed
  qed
  with Cons show ?case by (simp only: Match.simps MatchHere_lang)
qed

subsection \<open>The blocks and their tables\<close>

lemma gc_divergences_table:
  "gc_divergences goErr gcErr = (if matches gc_rules data goErr gcErr gccgoErr then returns 0 else None)"
  by (cases goErr; cases gcErr)
     (simp_all add: gc_divergences_def matches_def gc_rules_def accepts_rejects_def Error_def)

lemma gc_crash_table:
  "gc_crash e =
     (if crashed gcCrash e then
        (if curated gc_signatures e then returns 0
         else Some (Panic ''gc compiler crashed'', [Printf (''gc result: '' @ fmt_v e @ ''\<newline>'')]))
      else None)"
  by (cases e) (simp_all add: gc_crash_def crashed_def curated_def gc_signatures_def Error_def)

lemma gccgo_crash_table:
  "gccgo_crash e =
     (if crashed gccgoCrash e then
        (if curated gccgo_signatures e then returns 0
         else Some (Panic ''gccgo compiler crashed'',
                    [Printf (''gccgo result: '' @ fmt_v e @ ''\<newline>'')]))
      else None)"
  by (cases e)
     (simp_all add: gccgo_crash_def crashed_def curated_def gccgo_signatures_def Error_def)

lemma asan_crash_table:
  "asan_crash e =
     (if crashed asanCrash e then
        (if curated asan_signatures e then returns 0
         else Some (Panic ''gccgo compiler crashed'',
                    [Printf (''gccgo result: '' @ fmt_v e @ ''\<newline>'')]))
      else None)"
  by (cases e) (simp_all add: asan_crash_def crashed_def curated_def asan_signatures_def Error_def)

lemma gccgo_accepts_table:
  "gccgo_accepts data goErr gccgoErr =
   (if matches gccgo_accepts_rules data goErr gcErr gccgoErr then returns 0 else None)"
  by (cases goErr; cases gccgoErr)
     (auto simp add: gccgo_accepts_def 
        matches_def gccgo_accepts_rules_def accepts_rejects_def Error_def)

lemma gccgo_rejects_table:
  "gccgo_rejects data goErr gccgoErr =
   (if matches gccgo_rejects_rules data goErr gcErr gccgoErr then returns 0 else None)"
  by (cases goErr; cases gccgoErr)
     (auto simp add: gccgo_rejects_def
        matches_def gccgo_rejects_rules_def accepts_rejects_def Error_def)

lemma import_file_table:
  "import_file goErr gccgoErr =
   (if matches import_rules data goErr gcErr gccgoErr then returns 0 else None)"
  by (cases goErr; cases gccgoErr)
     (auto simp add: import_file_def
        matches_def import_rules_def accepts_rejects_def Error_def)

lemma multiline_comment_table:
  "multiline_comment data goErr gccgoErr =
   (if matches comment_rules data goErr gcErr gccgoErr then returns 0 else None)"
  by (cases goErr; cases gccgoErr)
     (auto simp add: multiline_comment_def
        matches_def comment_rules_def accepts_rejects_def Error_def)

lemma matches_append:
  "matches (rs @ rs') data goErr gcErr gccgoErr =
     (matches rs data goErr gcErr gccgoErr \<or> matches rs' data goErr gcErr gccgoErr)"
  by (simp add: matches_def)

lemma disagreement_table:
  "disagreement goErr gcErr gccgoErr =
     (if (goErr = None) = (gcErr = None) \<and> (gcErr = None) = (gccgoErr = None) then None
      else Some (Panic ''gc, gccgo and go/types disagree'',
              [Printf (''go/types result: '' @ fmt_v goErr @ ''\<newline>''),
               Printf (''gc result: '' @ fmt_v gcErr @ ''\<newline>''),
               Printf (''gccgo result: '' @ fmt_v gccgoErr @ ''\<newline>'')]))"
  unfolding disagreement_def by auto


text \<open>The body of \<open>Fuzz\<close> read as a decision table, first match wins.\<close>

lemma step_if:
  "(case (if c then Some r else None) of Some r \<Rightarrow> r | None \<Rightarrow> k) = (if c then r else k)"
  by simp

lemma step_if2:
  "(case (if c then (if d then Some r else Some r') else None) of Some r \<Rightarrow> r | None \<Rightarrow> k) =
     (if c then (if d then r else r') else k)"
  by simp

lemma step_if3:
  "(case (if c then None else Some r) of Some r \<Rightarrow> r | None \<Rightarrow> k) = (if c then k else r)"
  by simp

lemma after_adapters_chain:
  "after_adapters env data goErr gcErr gccgoErr =
     (if matches gc_rules data goErr gcErr gccgoErr then (Return 0, [])
      else if matches gccgo_accepts_rules data goErr gcErr gccgoErr then (Return 0, [])
      else if matches gccgo_rejects_rules data goErr gcErr gccgoErr then (Return 0, [])
      else if matches import_rules data goErr gcErr gccgoErr then (Return 0, [])
      else if matches comment_rules data goErr gcErr gccgoErr then (Return 0, [])
      else if crashed gcCrash gcErr then
        (if curated gc_signatures gcErr then (Return 0, [])
         else (Panic ''gc compiler crashed'',
               [Printf (''gc result: '' @ fmt_v gcErr @ ''\<newline>'')]))
      else if crashed gccgoCrash gccgoErr then
        (if curated gccgo_signatures gccgoErr then (Return 0, [])
         else (Panic ''gccgo compiler crashed'',
               [Printf (''gccgo result: '' @ fmt_v gccgoErr @ ''\<newline>'')]))
      else if crashed asanCrash gccgoErr then
        (if curated asan_signatures gccgoErr then (Return 0, [])
         else (Panic ''gccgo compiler crashed'',
               [Printf (''gccgo result: '' @ fmt_v gccgoErr @ ''\<newline>'')]))
      else if (goErr = None) = (gcErr = None) \<and> (gcErr = None) = (gccgoErr = None)
      then reformat env data goErr
      else (Panic ''gc, gccgo and go/types disagree'',
              [Printf (''go/types result: '' @ fmt_v goErr @ ''\<newline>''),
               Printf (''gc result: '' @ fmt_v gcErr @ ''\<newline>''),
               Printf (''gccgo result: '' @ fmt_v gccgoErr @ ''\<newline>'')]))"
  apply (subst after_adapters_def)
  apply (subst gc_divergences_table [where data = data and gccgoErr = gccgoErr])
  apply (subst gccgo_accepts_table [where gcErr = gcErr])
  apply (subst gccgo_rejects_table [where gcErr = gcErr])
  apply (subst import_file_table [where gcErr = gcErr and data = data])
  apply (subst multiline_comment_table [where gcErr = gcErr])
  apply (subst gc_crash_table)
  apply (subst gccgo_crash_table)
  apply (subst asan_crash_table)
  apply (subst disagreement_table)
  apply (simp only: step_if step_if2 step_if3)
  done

lemma Fuzz_table:
  "Fuzz env data =
     (if prefiltered data then (Return 0, [])
      else
        (case gotypes env data of
           Panic p \<Rightarrow> (Panic p, [Call_gotypes data])
         | Return goErr \<Rightarrow>
             (fst (after_adapters env data goErr goErr (gccgo env data)),
              [Call_gotypes data, Call_gccgo data] @
              snd (after_adapters env data goErr goErr (gccgo env data)))))"
  by (simp add: Fuzz_def prefiltered_def Let_def split_beta split: exit.splits)

lemma gotypes_mock: "gotypes (mock goErr run formatted) data = Return goErr"
  by (cases goErr) (simp_all add: gotypes_def mock_def)

lemma gccgo_mock:
  "gccgo (mock goErr (out, e) formatted) data =
     (case e of Some m \<Rightarrow> Some (out @ ''\<newline>'' @ m) | None \<Rightarrow> None)"
  by (cases e) (simp_all add: gccgo_def mock_def)

lemma format_mock: "format_Source (mock goErr run formatted) data = formatted"
  by (simp add: mock_def)

lemma Fuzz_verdicts:
  assumes "\<not> prefiltered data" and "gotypes env data = Return goErr"
    and "gccgo env data = gccgoErr"
  shows "Fuzz env data =
     (fst (after_adapters env data goErr goErr gccgoErr),
      [Call_gotypes data, Call_gccgo data] @ snd (after_adapters env data goErr goErr gccgoErr))"
  using assms by (simp add: Fuzz_table)

lemma chain5:
  "(if a then x else if b then x else if c then x else if d then x else if e then x else y) =
   (if a \<or> b \<or> c \<or> d \<or> e then x else y)"
  by simp

lemma after_adapters_table:
  "after_adapters env data goErr gcErr gccgoErr =
     (if matches step2_rules data goErr gcErr gccgoErr then (Return 0, [])
      else if crashed gcCrash gcErr then
        (if curated gc_signatures gcErr then (Return 0, [])
         else (Panic ''gc compiler crashed'',
               [Printf (''gc result: '' @ fmt_v gcErr @ ''\<newline>'')]))
      else if crashed gccgoCrash gccgoErr then
        (if curated gccgo_signatures gccgoErr then (Return 0, [])
         else (Panic ''gccgo compiler crashed'',
               [Printf (''gccgo result: '' @ fmt_v gccgoErr @ ''\<newline>'')]))
      else if crashed asanCrash gccgoErr then
        (if curated asan_signatures gccgoErr then (Return 0, [])
         else (Panic ''gccgo compiler crashed'',
               [Printf (''gccgo result: '' @ fmt_v gccgoErr @ ''\<newline>'')]))
      else if (goErr = None) = (gcErr = None) \<and> (gcErr = None) = (gccgoErr = None)
      then reformat env data goErr
      else (Panic ''gc, gccgo and go/types disagree'',
              [Printf (''go/types result: '' @ fmt_v goErr @ ''\<newline>''),
               Printf (''gc result: '' @ fmt_v gcErr @ ''\<newline>''),
               Printf (''gccgo result: '' @ fmt_v gccgoErr @ ''\<newline>'')]))"
  by (simp only: after_adapters_chain step2_rules_def matches_append chain5)

lemma no_rule_both_reject:
  "\<not> matches step2_rules data (Some m1) (Some m1) (Some m2)"
  by (simp add: step2_rules_def matches_def gc_rules_def gccgo_accepts_rules_def
      gccgo_rejects_rules_def import_rules_def comment_rules_def accepts_rejects_def)

lemma no_rule_both_accept:
  "\<not> matches step2_rules data None None None"
  by (simp add: step2_rules_def matches_def gc_rules_def gccgo_accepts_rules_def
      gccgo_rejects_rules_def import_rules_def comment_rules_def accepts_rejects_def)

lemma no_gc_rule_alias: "\<not> matches gc_rules data goErr goErr gccgoErr"
  by (cases goErr) (simp_all add: matches_def gc_rules_def accepts_rejects_def)

lemmas rule_tables =
  step2_rules_def matches_def gc_rules_def gccgo_accepts_rules_def gccgo_rejects_rules_def
  import_rules_def comment_rules_def accepts_rejects_def

lemmas patterns =
  bigNum_def issue11531_def issue11528_def issue11533_def fpRounding_def gcCrash_def
  gccgoCrash_def asanCrash_def formatBug1_def formatBug2_def Plus_def Opt_def AtLeast3_def
  digit_def space_class_def

subsection \<open>The pre-filters\<close>

text \<open>
  C8. An input that matches \<open>bigNum\<close> or \<open>issue11531\<close> makes \<open>Fuzz\<close> return 0 at once:
  the trace is empty, so neither the reference front end nor a compiler nor the formatter
  has been called on it.
\<close>

theorem prefilter_returns_before_adapters:
  "Match bigNum data \<or> Match issue11531 data \<Longrightarrow> Fuzz env data = (Return 0, [])"
  by (auto simp add: Fuzz_def)

theorem prefilter_returns_before_adapters_witness:
  "(Match bigNum ''x := 1e1000'' \<or> Match issue11531 ''x := 1e1000'') \<and>
   Fuzz (mock None ([], None) (Inr [])) ''x := 1e1000'' = (Return 0, [])"
proof -
  have h: "Match bigNum ''x := 1e1000'' \<or> Match issue11531 ''x := 1e1000''"
    by code_simp
  from prefilter_returns_before_adapters [OF h] h show ?thesis by blast
qed

subsection \<open>All implementations reject\<close>

text \<open>
  C3. When the reference front end and gccgo both report an error, and neither text matches
  a crash pattern (\<open>gcCrash\<close> is tried on the error of the reference front end, to which
  \<open>gcErr\<close> is bound), \<open>Fuzz\<close> returns 0 and prints nothing: no panic is reached.
\<close>

theorem all_invalid_skips:
  assumes "gotypes env data = Return (Some m1)" and "gccgo env data = Some m2"
    and "\<not> Match gcCrash m1" and "\<not> Match gccgoCrash m2" and "\<not> Match asanCrash m2"
  shows "Fuzz env data =
     (Return 0, if prefiltered data then [] else [Call_gotypes data, Call_gccgo data])"
proof (cases "prefiltered data")
  case True
  then show ?thesis by (simp add: Fuzz_table)
next
  case False
  have "after_adapters env data (Some m1) (Some m1) (Some m2) = (Return 0, [])"
    using assms(3-5)
    by (simp add: after_adapters_table no_rule_both_reject crashed_def reformat_def)
  with False assms(1,2) show ?thesis by (simp add: Fuzz_table)
qed

theorem all_invalid_skips_witness:
  "gotypes (mock (Some ''src.go:1:1: expected package'')
             (''<stdin>:1:1: error: expected package'', Some ''exit status 1'') (Inr []))
     ''garbage'' = Return (Some ''src.go:1:1: expected package'') \<and>
   gccgo (mock (Some ''src.go:1:1: expected package'')
            (''<stdin>:1:1: error: expected package'', Some ''exit status 1'') (Inr []))
     ''garbage'' = Some ''<stdin>:1:1: error: expected package\<newline>exit status 1'' \<and>
   \<not> Match gcCrash ''src.go:1:1: expected package'' \<and>
   \<not> Match gccgoCrash ''<stdin>:1:1: error: expected package\<newline>exit status 1'' \<and>
   \<not> Match asanCrash ''<stdin>:1:1: error: expected package\<newline>exit status 1'' \<and>
   Fuzz (mock (Some ''src.go:1:1: expected package'')
           (''<stdin>:1:1: error: expected package'', Some ''exit status 1'') (Inr []))
     ''garbage'' = (Return 0, [Call_gotypes ''garbage'', Call_gccgo ''garbage''])"
proof -
  let ?env = "mock (Some ''src.go:1:1: expected package'')
           (''<stdin>:1:1: error: expected package'', Some ''exit status 1'') (Inr [])"
  have h1: "gotypes ?env ''garbage'' = Return (Some ''src.go:1:1: expected package'')"
    by (rule gotypes_mock)
  have h2: "gccgo ?env ''garbage'' = Some ''<stdin>:1:1: error: expected package\<newline>exit status 1''"
    by (simp add: gccgo_mock)
  have h3: "\<not> Match gcCrash ''src.go:1:1: expected package''"
    by code_simp
  have h4: "\<not> Match gccgoCrash ''<stdin>:1:1: error: expected package\<newline>exit status 1''"
    by code_simp
  have h5: "\<not> Match asanCrash ''<stdin>:1:1: error: expected package\<newline>exit status 1''"
    by code_simp
  have p: "\<not> prefiltered ''garbage''"
    by code_simp
  from all_invalid_skips [OF h1 h2 h3 h4 h5] p
  have "Fuzz ?env ''garbage'' = (Return 0, [Call_gotypes ''garbage'', Call_gccgo ''garbage''])"
    by simp
  with h1 h2 h3 h4 h5 show ?thesis by blast
qed


subsection \<open>Known divergences come before the disagreement check\<close>

text \<open>
  C5. First match wins: when the results satisfy one of the known divergences of lines
  51-174 and also the condition of the disagreement check of line 282, \<open>Fuzz\<close> returns 0;
  the panic of line 286 is not reached and nothing is printed.
\<close>

theorem first_match_wins:
  assumes "gotypes env data = Return goErr" and "gcErr = goErr"
    and "gccgo env data = gccgoErr"
    and "matches step2_rules data goErr gcErr gccgoErr"
    and "(goErr = None) \<noteq> (gcErr = None) \<or> (goErr = None) \<noteq> (gccgoErr = None)"
  shows "Fuzz env data =
     (Return 0, if prefiltered data then [] else [Call_gotypes data, Call_gccgo data])"
  using assms(1-4) by (simp add: Fuzz_table after_adapters_table)

theorem first_match_wins_witness:
  "gotypes (mock None (''<stdin>:1:9: error: integer constant overflow'', Some ''exit status 1'')
      (Inr [])) ''package a'' = Return None \<and>
   gccgo (mock None (''<stdin>:1:9: error: integer constant overflow'', Some ''exit status 1'')
      (Inr [])) ''package a'' =
     Some ''<stdin>:1:9: error: integer constant overflow\<newline>exit status 1'' \<and>
   matches step2_rules ''package a'' None None
     (Some ''<stdin>:1:9: error: integer constant overflow\<newline>exit status 1'') \<and>
   ((None :: error option) = None) \<noteq>
     (Some ''<stdin>:1:9: error: integer constant overflow\<newline>exit status 1'' = None) \<and>
   Fuzz (mock None (''<stdin>:1:9: error: integer constant overflow'', Some ''exit status 1'')
      (Inr [])) ''package a'' = (Return 0, [Call_gotypes ''package a'', Call_gccgo ''package a''])"
proof -
  let ?env = "mock None (''<stdin>:1:9: error: integer constant overflow'', Some ''exit status 1'')
      (Inr [])"
  let ?e = "Some ''<stdin>:1:9: error: integer constant overflow\<newline>exit status 1''"
  have h1: "gotypes ?env ''package a'' = Return None"
    by (rule gotypes_mock)
  have h2: "gccgo ?env ''package a'' = ?e"
    by (simp add: gccgo_mock)
  have h3: "matches step2_rules ''package a'' None None ?e"
    by code_simp
  have h4: "((None :: error option) = None) \<noteq> (None = (None :: error option)) \<or>
      ((None :: error option) = None) \<noteq> (?e = None)"
    by simp
  have p: "\<not> prefiltered ''package a''"
    by code_simp
  from first_match_wins [OF h1 refl h2 h3 h4] p
  have "Fuzz ?env ''package a'' = (Return 0, [Call_gotypes ''package a'', Call_gccgo ''package a''])"
    by simp
  with h1 h2 h3 show ?thesis by simp
qed

subsection \<open>A disagreement that no rule explains\<close>

text \<open>
  C2, as the code has it. When the three results do not agree on validity, and the input
  passes the pre-filters, no known divergence matches and no crash is excused by a
  signature already filed, \<open>Fuzz\<close> panics; it returns neither 0 nor 1. When no crash
  pattern matches, the panic is the one of line 286, after the three results have been
  printed in the order go/types, gc, gccgo. When a crash pattern matches, the panic is
  the one of the first crash class that matches (line 191, 270 or 279), after the result
  of that compiler alone has been printed.
\<close>

theorem unexplained_disagreement_is_fatal:
  assumes "gotypes env data = Return goErr" and "gcErr = goErr"
    and "gccgo env data = gccgoErr"
    and "\<not> ((goErr = None) = (gcErr = None) \<and> (gcErr = None) = (gccgoErr = None))"
    and "\<not> prefiltered data"
    and "\<not> matches step2_rules data goErr gcErr gccgoErr"
    and "\<not> (crashed gcCrash gcErr \<and> curated gc_signatures gcErr)"
    and "\<not> (crashed gccgoCrash gccgoErr \<and> curated gccgo_signatures gccgoErr)"
    and "\<not> (crashed asanCrash gccgoErr \<and> curated asan_signatures gccgoErr)"
  shows "Fuzz env data =
     (if crashed gcCrash gcErr then
        (Panic ''gc compiler crashed'',
         [Call_gotypes data, Call_gccgo data,
          Printf (''gc result: '' @ fmt_v gcErr @ ''\<newline>'')])
      else if crashed gccgoCrash gccgoErr \<or> crashed asanCrash gccgoErr then
        (Panic ''gccgo compiler crashed'',
         [Call_gotypes data, Call_gccgo data,
          Printf (''gccgo result: '' @ fmt_v gccgoErr @ ''\<newline>'')])
      else
        (Panic ''gc, gccgo and go/types disagree'',
         [Call_gotypes data, Call_gccgo data,
          Printf (''go/types result: '' @ fmt_v goErr @ ''\<newline>''),
          Printf (''gc result: '' @ fmt_v gcErr @ ''\<newline>''),
          Printf (''gccgo result: '' @ fmt_v gccgoErr @ ''\<newline>'')]))"
proof -
  have "Fuzz env data =
     (fst (after_adapters env data goErr gcErr gccgoErr),
      [Call_gotypes data, Call_gccgo data] @ snd (after_adapters env data goErr gcErr gccgoErr))"
    using assms(1,2,3,5) by (simp add: Fuzz_table)
  moreover have "after_adapters env data goErr gcErr gccgoErr =
     (if crashed gcCrash gcErr then
        (Panic ''gc compiler crashed'', [Printf (''gc result: '' @ fmt_v gcErr @ ''\<newline>'')])
      else if crashed gccgoCrash gccgoErr \<or> crashed asanCrash gccgoErr then
        (Panic ''gccgo compiler crashed'',
         [Printf (''gccgo result: '' @ fmt_v gccgoErr @ ''\<newline>'')])
      else
        (Panic ''gc, gccgo and go/types disagree'',
         [Printf (''go/types result: '' @ fmt_v goErr @ ''\<newline>''),
          Printf (''gc result: '' @ fmt_v gcErr @ ''\<newline>''),
          Printf (''gccgo result: '' @ fmt_v gccgoErr @ ''\<newline>'')]))"
    using assms(4,6-9) unfolding after_adapters_table by (simp split: if_split) blast
  ultimately show ?thesis by simp
qed

theorem unexplained_disagreement_is_fatal_witness:
  "gotypes (mock None (''<stdin>:1:11: error: expected declaration'', Some ''exit status 1'')
      (Inr [])) ''package a;b'' = Return None \<and>
   gccgo (mock None (''<stdin>:1:11: error: expected declaration'', Some ''exit status 1'')
      (Inr [])) ''package a;b'' =
     Some ''<stdin>:1:11: error: expected declaration\<newline>exit status 1'' \<and>
   \<not> prefiltered ''package a;b'' \<and>
   \<not> matches step2_rules ''package a;b'' None None
     (Some ''<stdin>:1:11: error: expected declaration\<newline>exit status 1'') \<and>
   \<not> crashed gcCrash None \<and>
   \<not> crashed gccgoCrash (Some ''<stdin>:1:11: error: expected declaration\<newline>exit status 1'') \<and>
   \<not> crashed asanCrash (Some ''<stdin>:1:11: error: expected declaration\<newline>exit status 1'') \<and>
   Fuzz (mock None (''<stdin>:1:11: error: expected declaration'', Some ''exit status 1'')
      (Inr [])) ''package a;b'' =
     (Panic ''gc, gccgo and go/types disagree'',
      [Call_gotypes ''package a;b'', Call_gccgo ''package a;b'',
       Printf ''go/types result: <nil>\<newline>'',
       Printf ''gc result: <nil>\<newline>'',
       Printf ''gccgo result: <stdin>:1:11: error: expected declaration\<newline>exit status 1\<newline>''])"
proof -
  let ?env = "mock None (''<stdin>:1:11: error: expected declaration'', Some ''exit status 1'')
      (Inr [])"
  let ?e = "Some ''<stdin>:1:11: error: expected declaration\<newline>exit status 1''"
  have h1: "gotypes ?env ''package a;b'' = Return None"
    by (rule gotypes_mock)
  have h2: "gccgo ?env ''package a;b'' = ?e"
    by (simp add: gccgo_mock)
  have h4: "\<not> (((None :: error option) = None) = ((None :: error option) = None) \<and>
      ((None :: error option) = None) = (?e = None))"
    by simp
  have h5: "\<not> prefiltered ''package a;b''"
    by code_simp
  have h6: "\<not> matches step2_rules ''package a;b'' None None ?e"
    by code_simp
  have c1: "\<not> crashed gcCrash None"
    by (simp add: crashed_def)
  have c2: "\<not> crashed gccgoCrash ?e"
    by code_simp
  have c3: "\<not> crashed asanCrash ?e"
    by code_simp
  from c1 have h7: "\<not> (crashed gcCrash None \<and> curated gc_signatures None)"
    by simp
  from c2 have h8: "\<not> (crashed gccgoCrash ?e \<and> curated gccgo_signatures ?e)"
    by simp
  from c3 have h9: "\<not> (crashed asanCrash ?e \<and> curated asan_signatures ?e)"
    by simp
  from unexplained_disagreement_is_fatal [OF h1 refl h2 h4 h5 h6 h7 h8 h9] c1 c2 c3
  have "Fuzz ?env ''package a;b'' =
     (Panic ''gc, gccgo and go/types disagree'',
      [Call_gotypes ''package a;b'', Call_gccgo ''package a;b'',
       Printf ''go/types result: <nil>\<newline>'',
       Printf ''gc result: <nil>\<newline>'',
       Printf ''gccgo result: <stdin>:1:11: error: expected declaration\<newline>exit status 1\<newline>''])"
    by (simp add: fmt_v_def)
  with h1 h2 h5 h6 c1 c2 c3 show ?thesis by simp
qed

text \<open>
  C2 as stated fails: the three results are not always printed. Here the reference front
  end accepts \<open>package a\<close> and gccgo ends with an internal compiler error that carries no
  filed signature; no pre-filter and no known divergence matches. \<open>Fuzz\<close> panics at line
  270, before the check of line 282, and has printed the result of gccgo only.
\<close>

theorem unfiled_crash_prints_one_verdict:
  "gotypes (mock None (''x\<newline>go1: internal compiler error: in f, at g.c:1'', Some ''exit status 4'')
      (Inr [])) ''package a'' = Return None \<and>
   gccgo (mock None (''x\<newline>go1: internal compiler error: in f, at g.c:1'', Some ''exit status 4'')
      (Inr [])) ''package a'' =
     Some ''x\<newline>go1: internal compiler error: in f, at g.c:1\<newline>exit status 4'' \<and>
   \<not> prefiltered ''package a'' \<and>
   \<not> matches step2_rules ''package a'' None None
     (Some ''x\<newline>go1: internal compiler error: in f, at g.c:1\<newline>exit status 4'') \<and>
   \<not> curated gc_signatures None \<and>
   \<not> curated gccgo_signatures
     (Some ''x\<newline>go1: internal compiler error: in f, at g.c:1\<newline>exit status 4'') \<and>
   \<not> curated asan_signatures
     (Some ''x\<newline>go1: internal compiler error: in f, at g.c:1\<newline>exit status 4'') \<and>
   Fuzz (mock None (''x\<newline>go1: internal compiler error: in f, at g.c:1'', Some ''exit status 4'')
      (Inr [])) ''package a'' =
     (Panic ''gccgo compiler crashed'',
      [Call_gotypes ''package a'', Call_gccgo ''package a'',
       Printf ''gccgo result: x\<newline>go1: internal compiler error: in f, at g.c:1\<newline>exit status 4\<newline>''])"
proof -
  let ?env = "mock None (''x\<newline>go1: internal compiler error: in f, at g.c:1'', Some ''exit status 4'')
      (Inr [])"
  let ?e = "Some ''x\<newline>go1: internal compiler error: in f, at g.c:1\<newline>exit status 4''"
  have h1: "gotypes ?env ''package a'' = Return None"
    by (rule gotypes_mock)
  have h2: "gccgo ?env ''package a'' = ?e"
    by (simp add: gccgo_mock)
  have p: "\<not> prefiltered ''package a''"
    by code_simp
  have m: "\<not> matches step2_rules ''package a'' None None ?e"
    by code_simp
  have c1: "\<not> crashed gcCrash None"
    by (simp add: crashed_def)
  have c2: "crashed gccgoCrash ?e"
    by code_simp
  have s1: "\<not> curated gc_signatures None"
    by (simp add: curated_def)
  have s2: "\<not> curated gccgo_signatures ?e"
    by code_simp
  have s3: "\<not> curated asan_signatures ?e"
    by code_simp
  have "Fuzz ?env ''package a'' =
     (Panic ''gccgo compiler crashed'',
      [Call_gotypes ''package a'', Call_gccgo ''package a'',
       Printf ''gccgo result: x\<newline>go1: internal compiler error: in f, at g.c:1\<newline>exit status 4\<newline>''])"
    unfolding Fuzz_verdicts [OF p h1 h2] after_adapters_table
    using m c1 c2 s2 by (simp only: if_True if_False fst_conv snd_conv fmt_v_def) simp
  with h1 h2 p m s1 s2 s3 show ?thesis by blast
qed

subsection \<open>All implementations accept: the formatter\<close>

lemma Fuzz_all_accept:
  assumes "gotypes env data = Return None" and "gccgo env data = None"
    and "\<not> prefiltered data"
  shows "Fuzz env data =
     (if Match formatBug1 data \<or> Match formatBug2 data
      then (Return 1, [Call_gotypes data, Call_gccgo data])
      else
        (case format_Source env (replace_cr data) of
           Inl err \<Rightarrow> Panic err
         | Inr data1 \<Rightarrow> Return 1,
         [Call_gotypes data, Call_gccgo data, Call_format_Source (replace_cr data)]))"
  using assms
  by (simp add: Fuzz_table after_adapters_table no_rule_both_accept crashed_def reformat_def
      Let_def split: sum.splits)

text \<open>
  C7, as the code has it. On an input that passes the pre-filters and that the reference
  front end and gccgo both accept, let the formatter fail on the input with every
  carriage return replaced by a space. If neither \<open>formatBug1\<close> nor \<open>formatBug2\<close> matches
  the input, \<open>Fuzz\<close> calls the formatter and panics with its error; it returns neither 0
  nor 1. If one of them matches, the formatter is not called and \<open>Fuzz\<close> returns 1.
\<close>

theorem formatter_failure_is_fatal:
  assumes "gotypes env data = Return None" and "gccgo env data = None"
    and "\<not> prefiltered data"
    and "format_Source env (replace_cr data) = Inl err"
  shows "Fuzz env data =
     (if Match formatBug1 data \<or> Match formatBug2 data
      then (Return 1, [Call_gotypes data, Call_gccgo data])
      else (Panic err,
            [Call_gotypes data, Call_gccgo data, Call_format_Source (replace_cr data)]))"
  unfolding Fuzz_all_accept [OF assms(1-3)] using assms(4) by simp

theorem formatter_failure_is_fatal_witness:
  "gotypes (mock None ([], None) (Inl ''1:1: expected declaration'')) ''package a;b'' =
     Return None \<and>
   gccgo (mock None ([], None) (Inl ''1:1: expected declaration'')) ''package a;b'' = None \<and>
   \<not> prefiltered ''package a;b'' \<and>
   format_Source (mock None ([], None) (Inl ''1:1: expected declaration''))
     (replace_cr ''package a;b'') = Inl ''1:1: expected declaration'' \<and>
   \<not> (Match formatBug1 ''package a;b'' \<or> Match formatBug2 ''package a;b'') \<and>
   Fuzz (mock None ([], None) (Inl ''1:1: expected declaration'')) ''package a;b'' =
     (Panic ''1:1: expected declaration'',
      [Call_gotypes ''package a;b'', Call_gccgo ''package a;b'',
       Call_format_Source ''package a;b''])"
proof -
  let ?env = "mock None ([], None) (Inl ''1:1: expected declaration'')"
  have h1: "gotypes ?env ''package a;b'' = Return None"
    by (rule gotypes_mock)
  have h2: "gccgo ?env ''package a;b'' = None"
    by (simp add: gccgo_mock)
  have p: "\<not> prefiltered ''package a;b''"
    by code_simp
  have h4: "format_Source ?env (replace_cr ''package a;b'') = Inl ''1:1: expected declaration''"
    by (rule format_mock)
  have b: "\<not> (Match formatBug1 ''package a;b'' \<or> Match formatBug2 ''package a;b'')"
    by code_simp
  have r: "replace_cr ''package a;b'' = ''package a;b''"
    by code_simp
  have "Fuzz ?env ''package a;b'' =
     (Panic ''1:1: expected declaration'',
      [Call_gotypes ''package a;b'', Call_gccgo ''package a;b'',
       Call_format_Source ''package a;b''])"
    unfolding formatter_failure_is_fatal [OF h1 h2 p h4] r using b by (simp only: if_False)
  with h1 h2 p h4 b show ?thesis by blast
qed

text \<open>
  C7 as stated fails: a formatter that fails does not always make \<open>Fuzz\<close> panic. The
  input \<open>package a/**/;\<close> is accepted by the reference front end and by gccgo and passes
  the pre-filters; the formatter would fail on it. \<open>formatBug1\<close> matches, so line 293
  returns 1 and the formatter is never called.
\<close>

theorem failing_formatter_still_passes:
  "gotypes (mock None ([], None) (Inl ''1:1: expected declaration'')) ''package a/**/;'' =
     Return None \<and>
   gccgo (mock None ([], None) (Inl ''1:1: expected declaration'')) ''package a/**/;'' = None \<and>
   \<not> prefiltered ''package a/**/;'' \<and>
   \<not> matches step2_rules ''package a/**/;'' None None None \<and>
   format_Source (mock None ([], None) (Inl ''1:1: expected declaration'')) ''package a/**/;'' =
     Inl ''1:1: expected declaration'' \<and>
   format_Source (mock None ([], None) (Inl ''1:1: expected declaration''))
     (replace_cr ''package a/**/;'') = Inl ''1:1: expected declaration'' \<and>
   Fuzz (mock None ([], None) (Inl ''1:1: expected declaration'')) ''package a/**/;'' =
     (Return 1, [Call_gotypes ''package a/**/;'', Call_gccgo ''package a/**/;''])"
proof -
  let ?env = "mock None ([], None) (Inl ''1:1: expected declaration'')"
  let ?d = "''package a/**/;''"
  have h1: "gotypes ?env ?d = Return None"
    by (rule gotypes_mock)
  have h2: "gccgo ?env ?d = None"
    by (simp add: gccgo_mock)
  have p: "\<not> prefiltered ?d"
    by code_simp
  have b: "Match formatBug1 ?d"
    by code_simp
  have f: "Fuzz ?env ?d = (Return 1, [Call_gotypes ?d, Call_gccgo ?d])"
    unfolding Fuzz_all_accept [OF h1 h2 p] using b by (simp only: simp_thms if_True)
  show ?thesis
    using h1 h2 p f no_rule_both_accept [of ?d] format_mock by blast
qed

text \<open>
  C10. On an input that passes the pre-filters and that the reference front end and gccgo
  both accept: when neither \<open>formatBug1\<close> nor \<open>formatBug2\<close> matches, the one call of the
  formatter is on \<open>replace_cr data\<close>, which has the length of the input and a space
  wherever the input has a carriage return (0x0D), the other bytes unchanged; when one of
  them matches, \<open>Fuzz\<close> returns 1 and the trace has no call of the formatter.
\<close>

theorem formatter_input:
  assumes "gotypes env data = Return None" and "gccgo env data = None"
    and "\<not> prefiltered data"
  shows "(\<not> Match formatBug1 data \<and> \<not> Match formatBug2 data \<longrightarrow>
      snd (Fuzz env data) =
        [Call_gotypes data, Call_gccgo data, Call_format_Source (replace_cr data)] \<and>
      length (replace_cr data) = length data \<and>
      (\<forall>i < length data.
         replace_cr data ! i = (if data ! i = CHR 0x0D then CHR '' '' else data ! i))) \<and>
     (Match formatBug1 data \<or> Match formatBug2 data \<longrightarrow>
      Fuzz env data = (Return 1, [Call_gotypes data, Call_gccgo data]))"
  unfolding Fuzz_all_accept [OF assms] by (simp add: replace_cr_def)


theorem formatter_input_witness:
  "gotypes (mock None ([], None) (Inr ''package a'')) (''package a'' @ [CHR 0x0D]) =
     Return None \<and>
   gccgo (mock None ([], None) (Inr ''package a'')) (''package a'' @ [CHR 0x0D]) = None \<and>
   \<not> prefiltered (''package a'' @ [CHR 0x0D]) \<and>
   \<not> Match formatBug1 (''package a'' @ [CHR 0x0D]) \<and>
   \<not> Match formatBug2 (''package a'' @ [CHR 0x0D]) \<and>
   snd (Fuzz (mock None ([], None) (Inr ''package a'')) (''package a'' @ [CHR 0x0D])) =
     [Call_gotypes (''package a'' @ [CHR 0x0D]), Call_gccgo (''package a'' @ [CHR 0x0D]),
      Call_format_Source ''package a ''] \<and>
   gotypes (mock None ([], None) (Inr ''package a'')) ''package a/**/;'' = Return None \<and>
   gccgo (mock None ([], None) (Inr ''package a'')) ''package a/**/;'' = None \<and>
   \<not> prefiltered ''package a/**/;'' \<and>
   Match formatBug1 ''package a/**/;'' \<and>
   Fuzz (mock None ([], None) (Inr ''package a'')) ''package a/**/;'' =
     (Return 1, [Call_gotypes ''package a/**/;'', Call_gccgo ''package a/**/;''])"
proof -
  let ?env = "mock None ([], None) (Inr ''package a'')"
  let ?d = "''package a'' @ [CHR 0x0D]"
  let ?d' = "''package a/**/;''"
  have h1: "gotypes ?env ?d = Return None" and h1': "gotypes ?env ?d' = Return None"
    by (rule gotypes_mock)+
  have h2: "gccgo ?env ?d = None" and h2': "gccgo ?env ?d' = None"
    by (simp_all add: gccgo_mock)
  have p: "\<not> prefiltered ?d" and p': "\<not> prefiltered ?d'"
    by code_simp+
  have b: "\<not> Match formatBug1 ?d \<and> \<not> Match formatBug2 ?d"
    by code_simp
  have b': "Match formatBug1 ?d'"
    by code_simp
  have r: "replace_cr ?d = ''package a ''"
    by code_simp
  from formatter_input [OF h1 h2 p] b r
  have "snd (Fuzz ?env ?d) = [Call_gotypes ?d, Call_gccgo ?d, Call_format_Source ''package a '']"
    by simp
  moreover from formatter_input [OF h1' h2' p'] b'
  have "Fuzz ?env ?d' = (Return 1, [Call_gotypes ?d', Call_gccgo ?d'])"
    by blast
  ultimately show ?thesis
    using h1 h1' h2 h2' p p' b b' by blast
qed

text \<open>
  C6, as the code has it. On an input that passes the pre-filters and that the reference
  front end and gccgo both accept (no known divergence and no crash signature can match
  such results): if \<open>formatBug1\<close> or \<open>formatBug2\<close> matches the input, \<open>Fuzz\<close> returns 1
  without calling the formatter; otherwise it calls the formatter on the input with every
  carriage return replaced by a space, and the result of that call decides: 1 on success,
  a panic with the formatter's error on failure.
\<close>

theorem reformat_decides_on_normalised_input:
  assumes "gotypes env data = Return None" and "gccgo env data = None"
    and "\<not> prefiltered data"
  shows "Fuzz env data =
     (if Match formatBug1 data \<or> Match formatBug2 data
      then (Return 1, [Call_gotypes data, Call_gccgo data])
      else
        (case format_Source env (replace_cr data) of
           Inl err \<Rightarrow> Panic err
         | Inr data1 \<Rightarrow> Return 1,
         [Call_gotypes data, Call_gccgo data, Call_format_Source (replace_cr data)]))"
  using assms by (rule Fuzz_all_accept)

theorem reformat_decides_on_normalised_input_witness:
  "gotypes (mock None ([], None) (Inr ''package main'')) ''package main'' = Return None \<and>
   gccgo (mock None ([], None) (Inr ''package main'')) ''package main'' = None \<and>
   \<not> prefiltered ''package main'' \<and>
   Fuzz (mock None ([], None) (Inr ''package main'')) ''package main'' =
     (Return 1,
      [Call_gotypes ''package main'', Call_gccgo ''package main'',
       Call_format_Source ''package main''])"
proof -
  let ?env = "mock None ([], None) (Inr ''package main'')"
  have h1: "gotypes ?env ''package main'' = Return None"
    by (rule gotypes_mock)
  have h2: "gccgo ?env ''package main'' = None"
    by (simp add: gccgo_mock)
  have p: "\<not> prefiltered ''package main''"
    by code_simp
  have b: "\<not> (Match formatBug1 ''package main'' \<or> Match formatBug2 ''package main'')"
    by code_simp
  have r: "replace_cr ''package main'' = ''package main''"
    by code_simp
  from reformat_decides_on_normalised_input [OF h1 h2 p] b r
  have "Fuzz ?env ''package main'' =
     (Return 1,
      [Call_gotypes ''package main'', Call_gccgo ''package main'',
       Call_format_Source ''package main''])"
    by (simp add: format_mock)
  with h1 h2 p show ?thesis by blast
qed

text \<open>
  C6 as stated fails: the formatter is not always called on the input. On
  \<open>package main\r\n\<close>, accepted by all and matched by no pre-filter and no rule, the
  formatter is called on other bytes (the carriage return replaced), never on the input;
  on \<open>package main/**/;\<close>, equally accepted and unmatched, it is not called at all.
\<close>

theorem formatter_not_run_on_the_input:
  "gotypes (mock None ([], None) (Inr ''package main'')) (''package main'' @ [CHR 0x0D, CHR 0x0A]) =
     Return None \<and>
   gccgo (mock None ([], None) (Inr ''package main'')) (''package main'' @ [CHR 0x0D, CHR 0x0A]) =
     None \<and>
   \<not> prefiltered (''package main'' @ [CHR 0x0D, CHR 0x0A]) \<and>
   \<not> matches step2_rules (''package main'' @ [CHR 0x0D, CHR 0x0A]) None None None \<and>
   Fuzz (mock None ([], None) (Inr ''package main'')) (''package main'' @ [CHR 0x0D, CHR 0x0A]) =
     (Return 1,
      [Call_gotypes (''package main'' @ [CHR 0x0D, CHR 0x0A]),
       Call_gccgo (''package main'' @ [CHR 0x0D, CHR 0x0A]),
       Call_format_Source (''package main '' @ [CHR 0x0A])]) \<and>
   Call_format_Source (''package main'' @ [CHR 0x0D, CHR 0x0A]) \<notin>
     set (snd (Fuzz (mock None ([], None) (Inr ''package main''))
       (''package main'' @ [CHR 0x0D, CHR 0x0A]))) \<and>
   gotypes (mock None ([], None) (Inr ''package main'')) ''package main/**/;'' = Return None \<and>
   gccgo (mock None ([], None) (Inr ''package main'')) ''package main/**/;'' = None \<and>
   \<not> prefiltered ''package main/**/;'' \<and>
   \<not> matches step2_rules ''package main/**/;'' None None None \<and>
   Fuzz (mock None ([], None) (Inr ''package main'')) ''package main/**/;'' =
     (Return 1, [Call_gotypes ''package main/**/;'', Call_gccgo ''package main/**/;''])"
proof -
  let ?env = "mock None ([], None) (Inr ''package main'')"
  let ?d = "''package main'' @ [CHR 0x0D, CHR 0x0A]"
  let ?d' = "''package main/**/;''"
  have h1: "gotypes ?env ?d = Return None" and h1': "gotypes ?env ?d' = Return None"
    by (rule gotypes_mock)+
  have h2: "gccgo ?env ?d = None" and h2': "gccgo ?env ?d' = None"
    by (simp_all add: gccgo_mock)
  have p: "\<not> prefiltered ?d" and p': "\<not> prefiltered ?d'"
    by code_simp+
  have f: "Fuzz ?env ?d =
     (Return 1, [Call_gotypes ?d, Call_gccgo ?d, Call_format_Source (''package main '' @ [CHR 0x0A])])"
    unfolding Fuzz_all_accept [OF h1 h2 p] by (simp add: format_mock patterns replace_cr_def)
  have n: "Call_format_Source ?d \<notin> set (snd (Fuzz ?env ?d))"
    unfolding f by simp
  have f': "Fuzz ?env ?d' = (Return 1, [Call_gotypes ?d', Call_gccgo ?d'])"
    unfolding Fuzz_all_accept [OF h1' h2' p'] by (simp add: patterns)
  show ?thesis
    using h1 h1' h2 h2' p p' f f' n no_rule_both_accept by blast
qed

subsection \<open>The gc arm is the reference arm\<close>

lemma gc_divergences_alias: "gc_divergences goErr goErr = None"
  by (cases goErr) (simp_all add: gc_divergences_def)

lemma disagreement_alias:
  "disagreement goErr goErr gccgoErr = disagreement_two_way goErr gccgoErr"
  by (simp add: disagreement_def disagreement_two_way_def)

lemma after_adapters_alias:
  "after_adapters env data goErr goErr gccgoErr =
     (case gccgo_accepts data goErr gccgoErr of Some r \<Rightarrow> r | None \<Rightarrow>
     (case gccgo_rejects data goErr gccgoErr of Some r \<Rightarrow> r | None \<Rightarrow>
     (case import_file goErr gccgoErr of Some r \<Rightarrow> r | None \<Rightarrow>
     (case multiline_comment data goErr gccgoErr of Some r \<Rightarrow> r | None \<Rightarrow>
     (case gc_crash goErr of Some r \<Rightarrow> r | None \<Rightarrow>
     (case gccgo_crash gccgoErr of Some r \<Rightarrow> r | None \<Rightarrow>
     (case asan_crash gccgoErr of Some r \<Rightarrow> r | None \<Rightarrow>
     (case disagreement_two_way goErr gccgoErr of Some r \<Rightarrow> r | None \<Rightarrow>
      reformat env data goErr))))))))"
  unfolding after_adapters_def gc_divergences_alias disagreement_alias option.case ..

text \<open>
  C9. \<open>gcErr\<close> is bound to \<open>goErr\<close>, so \<open>Fuzz\<close> is the oracle with two arms: the two
  functions agree on every input, in result and trace. The body of \<open>Fuzz\<close> only ever runs
  with \<open>gcErr = goErr\<close>; on such arguments no rule of lines 51-77 fires, and the
  disagreement check of line 282 fires exactly when \<open>(goErr == nil) != (gccgoErr == nil)\<close>:
  its first half, \<open>(goErr == nil) != (gcErr == nil)\<close>, is false.
\<close>

theorem gc_arm_is_reference_arm:
  "Fuzz env data = Fuzz_two_way env data \<and>
   (\<not> prefiltered data \<and> gotypes env data = Return goErr \<longrightarrow>
      Fuzz env data =
        (fst (after_adapters env data goErr goErr (gccgo env data)),
         [Call_gotypes data, Call_gccgo data] @
         snd (after_adapters env data goErr goErr (gccgo env data)))) \<and>
   gc_divergences goErr goErr = None \<and>
   \<not> matches gc_rules data goErr goErr gccgoErr \<and>
   disagreement goErr goErr gccgoErr =
     (if (goErr = None) \<noteq> (gccgoErr = None) then
        Some (Panic ''gc, gccgo and go/types disagree'',
              [Printf (''go/types result: '' @ fmt_v goErr @ ''\<newline>''),
               Printf (''gc result: '' @ fmt_v goErr @ ''\<newline>''),
               Printf (''gccgo result: '' @ fmt_v gccgoErr @ ''\<newline>'')])
      else None)"
proof -
  have "Fuzz env data = Fuzz_two_way env data"
    unfolding Fuzz_def Fuzz_two_way_def Let_def after_adapters_alias ..
  moreover have "disagreement goErr goErr gccgoErr =
     (if (goErr = None) \<noteq> (gccgoErr = None) then
        Some (Panic ''gc, gccgo and go/types disagree'',
              [Printf (''go/types result: '' @ fmt_v goErr @ ''\<newline>''),
               Printf (''gc result: '' @ fmt_v goErr @ ''\<newline>''),
               Printf (''gccgo result: '' @ fmt_v gccgoErr @ ''\<newline>'')])
      else None)"
    by (simp add: disagreement_def)
  ultimately show ?thesis
    by (simp add: Fuzz_table gc_divergences_alias no_gc_rule_alias)
qed

theorem gc_arm_is_reference_arm_witness:
  "Fuzz (mock None (''<stdin>:1:11: error: expected declaration'', Some ''exit status 1'')
      (Inr [])) ''package a;b'' =
   Fuzz_two_way (mock None (''<stdin>:1:11: error: expected declaration'', Some ''exit status 1'')
      (Inr [])) ''package a;b'' \<and>
   gc_divergences None None = None \<and>
   \<not> matches gc_rules ''package a;b'' None None
       (Some ''<stdin>:1:11: error: expected declaration\<newline>exit status 1'') \<and>
   disagreement None None (Some ''<stdin>:1:11: error: expected declaration\<newline>exit status 1'') =
     Some (Panic ''gc, gccgo and go/types disagree'',
           [Printf ''go/types result: <nil>\<newline>'',
            Printf ''gc result: <nil>\<newline>'',
            Printf ''gccgo result: <stdin>:1:11: error: expected declaration\<newline>exit status 1\<newline>''])"
  using gc_arm_is_reference_arm
    [of "mock None (''<stdin>:1:11: error: expected declaration'', Some ''exit status 1'') (Inr [])"
        "''package a;b''" None
        "Some ''<stdin>:1:11: error: expected declaration\<newline>exit status 1''"]
  by (simp add: fmt_v_def)

text \<open>
  The check for a crash of gc is not dead: it reads the error of the reference front end.
\<close>

lemma gc_crash_reads_reference_error:
  "Fuzz (mock (Some ''src.go:1:1: x\<newline>/tmp/fuzz.gc1:1: internal compiler error: y'')
           (''<stdin>:1:1: error: x'', Some ''exit status 1'') (Inr [])) ''package'' =
     (Panic ''gc compiler crashed'',
      [Call_gotypes ''package'', Call_gccgo ''package'',
       Printf ''gc result: src.go:1:1: x\<newline>/tmp/fuzz.gc1:1: internal compiler error: y\<newline>''])"
proof -
  let ?env = "mock (Some ''src.go:1:1: x\<newline>/tmp/fuzz.gc1:1: internal compiler error: y'')
           (''<stdin>:1:1: error: x'', Some ''exit status 1'') (Inr [])"
  have p: "\<not> prefiltered ''package''"
    by code_simp
  have c: "crashed gcCrash (Some ''src.go:1:1: x\<newline>/tmp/fuzz.gc1:1: internal compiler error: y'')"
    by code_simp
  have s: "\<not> curated gc_signatures
      (Some ''src.go:1:1: x\<newline>/tmp/fuzz.gc1:1: internal compiler error: y'')"
    by code_simp
  show ?thesis
    unfolding Fuzz_verdicts [OF p gotypes_mock refl] after_adapters_table
    using c s by (simp only: no_rule_both_reject gccgo_mock option.case if_True if_False
        fst_conv snd_conv fmt_v_def) simp
qed

subsection \<open>Crashes\<close>

text \<open>
  C1, as the code has it. The crash checks of lines 177-280 come after the pre-filters and
  after the known divergences of lines 51-174, and before the disagreement check. On an
  input that passes the pre-filters and on which a result matches a crash pattern: a known
  divergence that matches returns 0; when none matches, the first crash class that
  matches, in the order \<open>gcCrash\<close> (tried on the error of the reference front end),
  \<open>gccgoCrash\<close>, \<open>asanCrash\<close>, decides: 0 if the text contains a signature filed for
  that class, a panic otherwise.
\<close>

theorem crash_check_follows_known_divergences:
  assumes "gotypes env data = Return goErr" and "gcErr = goErr"
    and "gccgo env data = gccgoErr"
    and "\<not> prefiltered data"
    and "crashed gcCrash gcErr \<or> crashed gccgoCrash gccgoErr \<or> crashed asanCrash gccgoErr"
  shows "fst (Fuzz env data) =
     (if matches step2_rules data goErr gcErr gccgoErr then Return 0
      else if crashed gcCrash gcErr then
        (if curated gc_signatures gcErr then Return 0 else Panic ''gc compiler crashed'')
      else if crashed gccgoCrash gccgoErr then
        (if curated gccgo_signatures gccgoErr then Return 0
         else Panic ''gccgo compiler crashed'')
      else
        (if curated asan_signatures gccgoErr then Return 0
         else Panic ''gccgo compiler crashed''))"
  using assms by (auto simp add: Fuzz_table after_adapters_table)

theorem crash_check_follows_known_divergences_witness:
  "gotypes (mock (Some ''src.go:1:1: x'')
      (''<stdin>:1:1: error: x\<newline>go1: internal compiler error: in f, at g.c:1'',
       Some ''exit status 4'') (Inr [])) ''package'' = Return (Some ''src.go:1:1: x'') \<and>
   gccgo (mock (Some ''src.go:1:1: x'')
      (''<stdin>:1:1: error: x\<newline>go1: internal compiler error: in f, at g.c:1'',
       Some ''exit status 4'') (Inr [])) ''package'' =
     Some ''<stdin>:1:1: error: x\<newline>go1: internal compiler error: in f, at g.c:1\<newline>exit status 4'' \<and>
   \<not> prefiltered ''package'' \<and>
   crashed gccgoCrash
     (Some ''<stdin>:1:1: error: x\<newline>go1: internal compiler error: in f, at g.c:1\<newline>exit status 4'') \<and>
   fst (Fuzz (mock (Some ''src.go:1:1: x'')
      (''<stdin>:1:1: error: x\<newline>go1: internal compiler error: in f, at g.c:1'',
       Some ''exit status 4'') (Inr [])) ''package'') = Panic ''gccgo compiler crashed''"
proof -
  let ?env = "mock (Some ''src.go:1:1: x'')
      (''<stdin>:1:1: error: x\<newline>go1: internal compiler error: in f, at g.c:1'',
       Some ''exit status 4'') (Inr [])"
  let ?g = "Some ''src.go:1:1: x''"
  let ?e = "Some ''<stdin>:1:1: error: x\<newline>go1: internal compiler error: in f, at g.c:1\<newline>exit status 4''"
  have h1: "gotypes ?env ''package'' = Return ?g"
    by (rule gotypes_mock)
  have h2: "gccgo ?env ''package'' = ?e"
    by (simp add: gccgo_mock)
  have p: "\<not> prefiltered ''package''"
    by code_simp
  have c1: "\<not> crashed gcCrash ?g"
    by code_simp
  have c2: "crashed gccgoCrash ?e"
    by code_simp
  have s: "\<not> curated gccgo_signatures ?e"
    by code_simp
  have h5: "crashed gcCrash ?g \<or> crashed gccgoCrash ?e \<or> crashed asanCrash ?e"
    using c2 by blast
  have "fst (Fuzz ?env ''package'') = Panic ''gccgo compiler crashed''"
    unfolding crash_check_follows_known_divergences [OF h1 refl h2 p h5]
    using c1 c2 s no_rule_both_reject [of "''package''"] by (simp only: if_True if_False)
  with h1 h2 p c2 show ?thesis by blast
qed

text \<open>
  C1 as stated fails: the known divergences are consulted first and can intercept a
  crash. Here gccgo ends with an internal compiler error that carries no filed signature,
  the reference front end accepts, and the input has a comment over two lines: the rule of
  line 171 returns 0 and the panic of line 270 is not reached.
\<close>

theorem step2_rule_intercepts_crash:
  "gotypes (mock None
      (''<stdin>: warning: w\<newline>go1: internal compiler error: in f, at g.c:1'',
       Some ''exit status 4'') (Inr [])) ''package a\<newline>/*\<newline>*/'' = Return None \<and>
   gccgo (mock None
      (''<stdin>: warning: w\<newline>go1: internal compiler error: in f, at g.c:1'',
       Some ''exit status 4'') (Inr [])) ''package a\<newline>/*\<newline>*/'' =
     Some ''<stdin>: warning: w\<newline>go1: internal compiler error: in f, at g.c:1\<newline>exit status 4'' \<and>
   crashed gccgoCrash
     (Some ''<stdin>: warning: w\<newline>go1: internal compiler error: in f, at g.c:1\<newline>exit status 4'') \<and>
   \<not> curated gccgo_signatures
     (Some ''<stdin>: warning: w\<newline>go1: internal compiler error: in f, at g.c:1\<newline>exit status 4'') \<and>
   \<not> prefiltered ''package a\<newline>/*\<newline>*/'' \<and>
   matches comment_rules ''package a\<newline>/*\<newline>*/'' None None
     (Some ''<stdin>: warning: w\<newline>go1: internal compiler error: in f, at g.c:1\<newline>exit status 4'') \<and>
   Fuzz (mock None
      (''<stdin>: warning: w\<newline>go1: internal compiler error: in f, at g.c:1'',
       Some ''exit status 4'') (Inr [])) ''package a\<newline>/*\<newline>*/'' =
     (Return 0,
      [Call_gotypes ''package a\<newline>/*\<newline>*/'', Call_gccgo ''package a\<newline>/*\<newline>*/''])"
proof -
  let ?env = "mock None
      (''<stdin>: warning: w\<newline>go1: internal compiler error: in f, at g.c:1'',
       Some ''exit status 4'') (Inr [])"
  let ?d = "''package a\<newline>/*\<newline>*/''"
  let ?e = "Some ''<stdin>: warning: w\<newline>go1: internal compiler error: in f, at g.c:1\<newline>exit status 4''"
  have h1: "gotypes ?env ?d = Return None"
    by (rule gotypes_mock)
  have h2: "gccgo ?env ?d = ?e"
    by (simp add: gccgo_mock)
  have p: "\<not> prefiltered ?d"
    by code_simp
  have c: "crashed gccgoCrash ?e"
    by code_simp
  have s: "\<not> curated gccgo_signatures ?e"
    by code_simp
  have m: "matches comment_rules ?d None None ?e"
    by code_simp
  then have m': "matches step2_rules ?d None None ?e"
    by (simp only: step2_rules_def matches_append simp_thms)
  have "Fuzz ?env ?d = (Return 0, [Call_gotypes ?d, Call_gccgo ?d])"
    unfolding Fuzz_verdicts [OF p h1 h2] after_adapters_table
    using m' by (simp only: if_True fst_conv snd_conv append.simps)
  with h1 h2 p c s m show ?thesis by blast
qed

text \<open>
  C4, as the code has it. On an input that passes the pre-filters and matches no known
  divergence, an error text that matches a crash pattern is decided by the signatures
  filed for the first class that matches, in the order \<open>gcCrash\<close> (tried on the error of
  the reference front end), \<open>gccgoCrash\<close>, \<open>asanCrash\<close>: \<open>Fuzz\<close> returns 0 if the text
  contains one of them, and otherwise prints the result of that compiler and panics.
\<close>

theorem crash_signatures_conservative:
  assumes "gotypes env data = Return goErr" and "gcErr = goErr"
    and "gccgo env data = gccgoErr"
    and "\<not> prefiltered data"
    and "\<not> matches step2_rules data goErr gcErr gccgoErr"
  shows "(crashed gcCrash gcErr \<longrightarrow>
      Fuzz env data =
        (if curated gc_signatures gcErr then (Return 0, [Call_gotypes data, Call_gccgo data])
         else (Panic ''gc compiler crashed'',
               [Call_gotypes data, Call_gccgo data,
                Printf (''gc result: '' @ fmt_v gcErr @ ''\<newline>'')]))) \<and>
     (\<not> crashed gcCrash gcErr \<and> crashed gccgoCrash gccgoErr \<longrightarrow>
      Fuzz env data =
        (if curated gccgo_signatures gccgoErr
         then (Return 0, [Call_gotypes data, Call_gccgo data])
         else (Panic ''gccgo compiler crashed'',
               [Call_gotypes data, Call_gccgo data,
                Printf (''gccgo result: '' @ fmt_v gccgoErr @ ''\<newline>'')]))) \<and>
     (\<not> crashed gcCrash gcErr \<and> \<not> crashed gccgoCrash gccgoErr \<and>
      crashed asanCrash gccgoErr \<longrightarrow>
      Fuzz env data =
        (if curated asan_signatures gccgoErr
         then (Return 0, [Call_gotypes data, Call_gccgo data])
         else (Panic ''gccgo compiler crashed'',
               [Call_gotypes data, Call_gccgo data,
                Printf (''gccgo result: '' @ fmt_v gccgoErr @ ''\<newline>'')])))"
  using assms by (simp add: Fuzz_table after_adapters_table)

theorem crash_signatures_conservative_witness:
  "gotypes (mock None
      (''<stdin>: warning: w\<newline>go1: internal compiler error: in type_size, at go/go-gcc.cc:1'',
       Some ''exit status 4'') (Inr [])) ''package a'' = Return None \<and>
   gccgo (mock None
      (''<stdin>: warning: w\<newline>go1: internal compiler error: in type_size, at go/go-gcc.cc:1'',
       Some ''exit status 4'') (Inr [])) ''package a'' =
     Some ''<stdin>: warning: w\<newline>go1: internal compiler error: in type_size, at go/go-gcc.cc:1\<newline>exit status 4'' \<and>
   \<not> prefiltered ''package a'' \<and>
   \<not> matches step2_rules ''package a'' None None
     (Some ''<stdin>: warning: w\<newline>go1: internal compiler error: in type_size, at go/go-gcc.cc:1\<newline>exit status 4'') \<and>
   \<not> crashed gcCrash None \<and>
   crashed gccgoCrash
     (Some ''<stdin>: warning: w\<newline>go1: internal compiler error: in type_size, at go/go-gcc.cc:1\<newline>exit status 4'') \<and>
   curated gccgo_signatures
     (Some ''<stdin>: warning: w\<newline>go1: internal compiler error: in type_size, at go/go-gcc.cc:1\<newline>exit status 4'') \<and>
   Fuzz (mock None
      (''<stdin>: warning: w\<newline>go1: internal compiler error: in type_size, at go/go-gcc.cc:1'',
       Some ''exit status 4'') (Inr [])) ''package a'' =
     (Return 0, [Call_gotypes ''package a'', Call_gccgo ''package a''])"
proof -
  let ?env = "mock None
      (''<stdin>: warning: w\<newline>go1: internal compiler error: in type_size, at go/go-gcc.cc:1'',
       Some ''exit status 4'') (Inr [])"
  let ?e = "Some ''<stdin>: warning: w\<newline>go1: internal compiler error: in type_size, at go/go-gcc.cc:1\<newline>exit status 4''"
  have h1: "gotypes ?env ''package a'' = Return None"
    by (rule gotypes_mock)
  have h2: "gccgo ?env ''package a'' = ?e"
    by (simp add: gccgo_mock)
  have p: "\<not> prefiltered ''package a''"
    by code_simp
  have m: "\<not> matches step2_rules ''package a'' None None ?e"
    by code_simp
  have c1: "\<not> crashed gcCrash None"
    by (simp add: crashed_def)
  have c2: "crashed gccgoCrash ?e"
    by code_simp
  have s: "curated gccgo_signatures ?e"
    by code_simp
  from crash_signatures_conservative [OF h1 refl h2 p m] c1 c2 s
  have "Fuzz ?env ''package a'' = (Return 0, [Call_gotypes ''package a'', Call_gccgo ''package a''])"
    by (simp only: simp_thms if_True)
  with h1 h2 p m c1 c2 s show ?thesis by blast
qed

text \<open>
  C4 as stated fails: an error text that matches \<open>gccgoCrash\<close> and contains none of the
  signatures filed for gccgo yields 0, not a panic, when it also contains the message of a
  known divergence (here that of line 139, on an input the reference front end accepts).
\<close>

theorem unfiled_crash_skipped:
  "gotypes (mock None
      (''<stdin>:1:9: error: integer constant overflow\<newline>go1: internal compiler error: in f, at g.c:1'',
       Some ''exit status 4'') (Inr [])) ''package a'' = Return None \<and>
   gccgo (mock None
      (''<stdin>:1:9: error: integer constant overflow\<newline>go1: internal compiler error: in f, at g.c:1'',
       Some ''exit status 4'') (Inr [])) ''package a'' =
     Some ''<stdin>:1:9: error: integer constant overflow\<newline>go1: internal compiler error: in f, at g.c:1\<newline>exit status 4'' \<and>
   Match gccgoCrash
     ''<stdin>:1:9: error: integer constant overflow\<newline>go1: internal compiler error: in f, at g.c:1\<newline>exit status 4'' \<and>
   \<not> list_ex
       (Contains
         ''<stdin>:1:9: error: integer constant overflow\<newline>go1: internal compiler error: in f, at g.c:1\<newline>exit status 4'')
       gccgo_signatures \<and>
   \<not> prefiltered ''package a'' \<and>
   Fuzz (mock None
      (''<stdin>:1:9: error: integer constant overflow\<newline>go1: internal compiler error: in f, at g.c:1'',
       Some ''exit status 4'') (Inr [])) ''package a'' =
     (Return 0, [Call_gotypes ''package a'', Call_gccgo ''package a''])"
proof -
  let ?env = "mock None
      (''<stdin>:1:9: error: integer constant overflow\<newline>go1: internal compiler error: in f, at g.c:1'',
       Some ''exit status 4'') (Inr [])"
  let ?t = "''<stdin>:1:9: error: integer constant overflow\<newline>go1: internal compiler error: in f, at g.c:1\<newline>exit status 4''"
  have h1: "gotypes ?env ''package a'' = Return None"
    by (rule gotypes_mock)
  have h2: "gccgo ?env ''package a'' = Some ?t"
    by (simp add: gccgo_mock)
  have p: "\<not> prefiltered ''package a''"
    by code_simp
  have c: "Match gccgoCrash ?t"
    by code_simp
  have s: "\<not> list_ex (Contains ?t) gccgo_signatures"
    by code_simp
  have m: "matches gccgo_rejects_rules ''package a'' None None (Some ?t)"
    by code_simp
  then have m': "matches step2_rules ''package a'' None None (Some ?t)"
    by (simp only: step2_rules_def matches_append simp_thms)
  have "Fuzz ?env ''package a'' = (Return 0, [Call_gotypes ''package a'', Call_gccgo ''package a''])"
    unfolding Fuzz_verdicts [OF p h1 h2] after_adapters_table
    using m' by (simp only: if_True fst_conv snd_conv append.simps)
  with h1 h2 p c s show ?thesis by blast
qed

end
